theory Spec2Isabelle
  imports Main
begin

section \<open>JavaScript values of the createAffiliate function\<close>

text \<open>
  The handler works on values produced by \<^verbatim>\<open>JSON.parse\<close>. They are modelled by
  the datatype \<open>json\<close>; \<^verbatim>\<open>undefined\<close> (an absent property) is \<open>None\<close> of
  \<open>json option\<close>. An object is the association list of its own properties, read with
  \<open>map_of\<close>; the order of keys in a serialisation is not modelled. Numbers are the
  integers, and \<^verbatim>\<open>String(n)\<close> is the decimal numeral: that is the conversion of
  JavaScript for the integers of magnitude up to \<open>2^53 - 1\<close>; larger numbers (which
  \<^verbatim>\<open>JSON.parse\<close> rounds, and which are written with an exponent from
  \<open>10^21\<close> on) and fractions are outside the model. Strings are lists of
  ASCII characters, so \<^verbatim>\<open>length\<close> counts what the source counts and the case
  mappings are those of the ASCII letters.
\<close>

datatype json =
    JNull
  | JBool bool
  | JNum int
  | JStr string
  | JArr "json list"
  | JObj "(string \<times> json) list"

datatype exn =
    TypeError string
  | SyntaxError string
  | NetworkError string

fun message :: "exn \<Rightarrow> string" where
  "message (TypeError m) = m"
| "message (SyntaxError m) = m"
| "message (NetworkError m) = m"

text \<open>Truthiness, as \<^verbatim>\<open>!x\<close>, \<^verbatim>\<open>x || y\<close> and \<^verbatim>\<open>if (x)\<close> decide it.\<close>

fun truthy :: "json option \<Rightarrow> bool" where
  "truthy None = False"
| "truthy (Some JNull) = False"
| "truthy (Some (JBool b)) = b"
| "truthy (Some (JNum n)) = (n \<noteq> 0)"
| "truthy (Some (JStr s)) = (s \<noteq> [])"
| "truthy (Some (JArr xs)) = True"
| "truthy (Some (JObj kvs)) = True"

text \<open>\<^verbatim>\<open>a || b\<close> on possibly undefined values.\<close>

definition orElse :: "json option \<Rightarrow> json option \<Rightarrow> json option" where
  "orElse a b = (if truthy a then a else b)"

text \<open>
  Property read \<^verbatim>\<open>x.k\<close> on a value that is not \<^verbatim>\<open>null\<close>, for the property
  names the handler reads (none of them is defined by a prototype): an object gives its own
  property, every other value gives \<^verbatim>\<open>undefined\<close>.
\<close>

fun propOf :: "json \<Rightarrow> string \<Rightarrow> json option" where
  "propOf (JObj kvs) k = map_of kvs k"
| "propOf v k = None"

text \<open>The same read where the value may be \<^verbatim>\<open>null\<close>: that throws a TypeError.\<close>

definition getProp :: "json \<Rightarrow> string \<Rightarrow> exn + json option" where
  "getProp v k =
     (if v = JNull
      then Inl (TypeError (''Cannot read properties of null (reading '' @ [CHR 0x27] @ k @ [CHR 0x27] @ '')''))
      else Inr (propOf v k))"

subsection \<open>Strings\<close>

definition isSpace :: "char \<Rightarrow> bool" where
  "isSpace c = (c \<in> set [CHR 0x09, CHR 0x0A, CHR 0x0B, CHR 0x0C, CHR 0x0D, CHR 0x20, CHR 0xA0])"

definition trim :: "string \<Rightarrow> string" where
  "trim s = rev (dropWhile isSpace (rev (dropWhile isSpace s)))"

definition lowerChar :: "char \<Rightarrow> char" where
  "lowerChar c = (let n = (of_char c :: nat) in if 65 \<le> n \<and> n \<le> 90 then char_of (n + 32) else c)"

definition upperChar :: "char \<Rightarrow> char" where
  "upperChar c = (let n = (of_char c :: nat) in if 97 \<le> n \<and> n \<le> 122 then char_of (n - 32) else c)"

definition toLowerCase :: "string \<Rightarrow> string" where
  "toLowerCase s = map lowerChar s"

definition toUpperCase :: "string \<Rightarrow> string" where
  "toUpperCase s = map upperChar s"

definition isDigit :: "char \<Rightarrow> bool" where
  "isDigit c = (let n = (of_char c :: nat) in 48 \<le> n \<and> n \<le> 57)"

text \<open>\<^verbatim>\<open>s.includes(t)\<close>.\<close>

fun includesStr :: "string \<Rightarrow> string \<Rightarrow> bool" where
  "includesStr [] t = (t = [])"
| "includesStr (c # cs) t = (take (length t) (c # cs) = t \<or> includesStr cs t)"

text \<open>\<^verbatim>\<open>xs.join(sep)\<close> on strings.\<close>

fun joinWith :: "string \<Rightarrow> string list \<Rightarrow> string" where
  "joinWith sep [] = []"
| "joinWith sep [x] = x"
| "joinWith sep (x # y # ys) = x @ sep @ joinWith sep (y # ys)"

subsection \<open>Conversion to a string\<close>

definition digitChar :: "nat \<Rightarrow> char" where
  "digitChar d = char_of (48 + d)"

function showNat :: "nat \<Rightarrow> string" where
  "showNat n = (if n < 10 then [digitChar n] else showNat (n div 10) @ [digitChar (n mod 10)])"
  by pat_completeness auto
termination
  by (relation "measure id") auto

declare showNat.simps [simp del]

definition showInt :: "int \<Rightarrow> string" where
  "showInt i = (if i < 0 then CHR ''-'' # showNat (nat (- i)) else showNat (nat i))"

text \<open>
  \<^verbatim>\<open>String(v)\<close>, a template literal \<^verbatim>\<open>`${v}`\<close> and the conversion of a
  property key. An array joins its elements with a comma (\<^verbatim>\<open>null\<close> gives the
  empty string); an object gives \<^verbatim>\<open>[object Object]\<close>, unless it has an own
  property \<^verbatim>\<open>toString\<close>: a parsed value is never callable, so the conversion to
  a primitive fails with a TypeError.
\<close>

fun toString :: "json \<Rightarrow> exn + string"
  and elemStrings :: "json list \<Rightarrow> exn + string list" where
  "toString JNull = Inr ''null''"
| "toString (JBool b) = Inr (if b then ''true'' else ''false'')"
| "toString (JNum n) = Inr (showInt n)"
| "toString (JStr s) = Inr s"
| "toString (JArr xs) =
     (case elemStrings xs of Inl e \<Rightarrow> Inl e | Inr ss \<Rightarrow> Inr (joinWith '','' ss))"
| "toString (JObj kvs) =
     (if map_of kvs ''toString'' \<noteq> None
      then Inl (TypeError ''Cannot convert object to primitive value'')
      else Inr ''[object Object]'')"
| "elemStrings [] = Inr []"
| "elemStrings (x # xs) =
     (case (if x = JNull then Inr [] else toString x) of
        Inl e \<Rightarrow> Inl e
      | Inr s \<Rightarrow> (case elemStrings xs of Inl e \<Rightarrow> Inl e | Inr ss \<Rightarrow> Inr (s # ss)))"

text \<open>The same on a possibly undefined value.\<close>

definition toStringU :: "json option \<Rightarrow> exn + string" where
  "toStringU v = (case v of None \<Rightarrow> Inr ''undefined'' | Some j \<Rightarrow> toString j)"

section \<open>Helpers of the handler\<close>

definition countryMap :: "(string \<times> string) list" where
  "countryMap =
     [(''United Kingdom'', ''GB''), (''UK'', ''GB''), (''United States'', ''US''),
      (''USA'', ''US''), (''US'', ''US''), (''Canada'', ''CA''), (''Australia'', ''AU''),
      (''Germany'', ''DE''), (''France'', ''FR''), (''Spain'', ''ES''), (''Italy'', ''IT''),
      (''Netherlands'', ''NL''), (''Belgium'', ''BE''), (''Switzerland'', ''CH''),
      (''Austria'', ''AT''), (''Sweden'', ''SE''), (''Norway'', ''NO''), (''Denmark'', ''DK''),
      (''Poland'', ''PL''), (''Portugal'', ''PT''), (''Ireland'', ''IE''), (''Greece'', ''GR''),
      (''Finland'', ''FI''), (''Czech Republic'', ''CZ''), (''Hungary'', ''HU''),
      (''Romania'', ''RO''), (''Bulgaria'', ''BG''), (''Croatia'', ''HR''),
      (''Slovakia'', ''SK''), (''Slovenia'', ''SI''), (''Estonia'', ''EE''),
      (''Latvia'', ''LV''), (''Lithuania'', ''LT''), (''Luxembourg'', ''LU''),
      (''Malta'', ''MT''), (''Cyprus'', ''CY'')]"

text \<open>\<^verbatim>\<open>v.length\<close> of a truthy value that is not a string.\<close>

fun lengthProp :: "json \<Rightarrow> json option" where
  "lengthProp (JArr xs) = Some (JNum (int (length xs)))"
| "lengthProp (JObj kvs) = map_of kvs ''length''"
| "lengthProp v = None"

text \<open>
  \<^verbatim>\<open>getCountryISOCode\<close>: the two-character shortcut comes before the table, and the
  table is searched in its order. A truthy value that is not a string has no
  \<^verbatim>\<open>toUpperCase\<close> and no \<^verbatim>\<open>trim\<close>: the call throws.
\<close>

definition getCountryISOCode :: "json option \<Rightarrow> exn + string" where
  "getCountryISOCode countryName =
     (if \<not> truthy countryName then Inr ''GB''
      else case countryName of
        Some (JStr s) \<Rightarrow>
          if length s = 2 then Inr (toUpperCase s)
          else (case find (\<lambda>kc. toLowerCase (fst kc) = toLowerCase (trim s)) countryMap of
                  Some kc \<Rightarrow> Inr (snd kc)
                | None \<Rightarrow> Inr ''GB'')
      | Some v \<Rightarrow>
          if lengthProp v = Some (JNum 2)
          then Inl (TypeError ''countryName.toUpperCase is not a function'')
          else Inl (TypeError ''countryName.trim is not a function'')
      | None \<Rightarrow> Inr ''GB'')"

text \<open>
  \<^verbatim>\<open>validateParentId\<close>: a string is trimmed, any other truthy value is converted
  with \<^verbatim>\<open>String\<close> first (which can throw); the regular expression
  \<^verbatim>\<open>/^[0-9]+$/\<close> accepts the non-empty strings of decimal digits.
\<close>

definition validateParentId :: "json option \<Rightarrow> exn + string option" where
  "validateParentId rawParentId =
     (if \<not> truthy rawParentId then Inr None
      else case (case rawParentId of
                   Some (JStr s) \<Rightarrow> Inr (trim s)
                 | Some v \<Rightarrow> (case toString v of Inl e \<Rightarrow> Inl e | Inr s \<Rightarrow> Inr (trim s))
                 | None \<Rightarrow> Inr []) of
        Inl e \<Rightarrow> Inl e
      | Inr parentId \<Rightarrow>
          if parentId = [] \<or> parentId = ''null'' then Inr None
          else if \<not> (parentId \<noteq> [] \<and> list_all isDigit parentId) then Inr None
          else Inr (Some parentId))"


text \<open>\<^verbatim>\<open>normalizeFieldLabel\<close>: \<^verbatim>\<open>(label || '').trim().toLowerCase()\<close>.\<close>

definition normalizeLabel :: "string \<Rightarrow> string" where
  "normalizeLabel s = toLowerCase (trim s)"

definition normalizeFieldLabel :: "json option \<Rightarrow> exn + string" where
  "normalizeFieldLabel label =
     (case orElse label (Some (JStr [])) of
        Some (JStr s) \<Rightarrow> Inr (normalizeLabel s)
      | _ \<Rightarrow> Inl (TypeError ''(label || \"\").trim is not a function''))"

subsection \<open>Objects built by the handler\<close>

text \<open>\<^verbatim>\<open>obj[k] = v\<close> for a key that is not \<^verbatim>\<open>__proto__\<close>.\<close>

fun assign :: "string \<Rightarrow> 'v \<Rightarrow> (string \<times> 'v) list \<Rightarrow> (string \<times> 'v) list" where
  "assign k v [] = [(k, v)]"
| "assign k v (p # ps) = (if fst p = k then (k, v) # ps else p # assign k v ps)"

text \<open>
  \<^verbatim>\<open>customFields[key] = value\<close> with a computed key: assigning to
  \<^verbatim>\<open>__proto__\<close> creates no own property. A value \<open>None\<close> is a function (a member
  of \<^verbatim>\<open>Object.prototype\<close>), which \<^verbatim>\<open>JSON.stringify\<close> leaves out.
\<close>

type_synonym customFields = "(string \<times> json option) list"

definition setField :: "string \<Rightarrow> json option \<Rightarrow> customFields \<Rightarrow> customFields" where
  "setField k v cf = (if k = ''__proto__'' then cf else assign k v cf)"

definition stringifyFields :: "customFields \<Rightarrow> json" where
  "stringifyFields cf = JObj (List.map_filter (\<lambda>kv. map_option (Pair (fst kv)) (snd kv)) cf)"

text \<open>\<^verbatim>\<open>{ ...v }\<close> for a truthy value.\<close>

fun spread :: "json \<Rightarrow> (string \<times> json) list" where
  "spread (JObj kvs) = kvs"
| "spread (JArr xs) = map (\<lambda>i. (showNat i, xs ! i)) [0..<length xs]"
| "spread (JStr s) = map (\<lambda>i. (showNat i, JStr [s ! i])) [0..<length s]"
| "spread v = []"

text \<open>
  A lookup \<^verbatim>\<open>table[x] || x\<close> in an object literal of the source: the key is
  \<^verbatim>\<open>x\<close> converted to a string, and a key the table lacks is still found when
  \<^verbatim>\<open>Object.prototype\<close> defines it.
\<close>

definition objectPrototypeNames :: "string list" where
  "objectPrototypeNames =
     [''constructor'', ''__defineGetter__'', ''__defineSetter__'', ''hasOwnProperty'',
      ''__lookupGetter__'', ''__lookupSetter__'', ''isPrototypeOf'', ''propertyIsEnumerable'',
      ''toString'', ''valueOf'', ''__proto__'', ''toLocaleString'']"

datatype jsref = Plain "json option" | Inherited string

fun truthyRef :: "jsref \<Rightarrow> bool" where
  "truthyRef (Plain v) = truthy v"
| "truthyRef (Inherited k) = True"

definition lookupOr :: "(string \<times> string) list \<Rightarrow> json option \<Rightarrow> exn + jsref" where
  "lookupOr table x =
     (case toStringU x of
        Inl e \<Rightarrow> Inl e
      | Inr key \<Rightarrow>
          (case map_of table key of
             Some s \<Rightarrow> Inr (if s \<noteq> [] then Plain (Some (JStr s)) else Plain x)
           | None \<Rightarrow> Inr (if key \<in> set objectPrototypeNames then Inherited key else Plain x)))"

text \<open>What \<^verbatim>\<open>JSON.stringify\<close> writes for such a value.\<close>

fun refJson :: "jsref \<Rightarrow> json option" where
  "refJson (Plain v) = v"
| "refJson (Inherited k) = (if k = ''__proto__'' then Some (JObj []) else None)"

text \<open>
  The text of such a value in a URL: the source text of a native function is left
  symbolic.
\<close>

datatype segment = Text string | SourceOf string

definition refSegment :: "jsref \<Rightarrow> exn + segment" where
  "refSegment r =
     (case r of
        Plain v \<Rightarrow> (case toStringU v of Inl e \<Rightarrow> Inl e | Inr t \<Rightarrow> Inr (Text t))
      | Inherited k \<Rightarrow> Inr (if k = ''__proto__'' then Text ''[object Object]'' else SourceOf k))"

definition PROGRAM_ID_MAP :: "(string \<times> string) list" where
  "PROGRAM_ID_MAP =
     [(''USD'', ''stasher-affiliates-usd''), (''EUR'', ''stasher-affiliate-program-sp''),
      (''GBP'', ''stasher-affiliate-program''), (''AUD'', ''jg-affiliate-program'')]"

definition companyTypeLabels :: "(string \<times> string) list" where
  "companyTypeLabels =
     [(''supply'', ''I want to store bags (Supply)''),
      (''vacation-rental'', ''Vacation Rental / STR / Airbnb Host''),
      (''pms'', ''PMS''), (''venue'', ''Venue''), (''blog'', ''Blog''),
      (''tour-operator'', ''Tour Operator''), (''transportations'', ''Transportations''),
      (''other'', ''Other'')]"

definition validCommissionTypes :: "string list" where
  "validCommissionTypes = [''I want 10% commission'', ''I want 10% discount code'', ''Custom'']"

subsection \<open>The field catalog\<close>

text \<open>
  The map from normalized titles to keys is an object built by assignment: its own
  properties, and the object a title \<^verbatim>\<open>__proto__\<close> has put in its prototype chain.
\<close>

record fieldMap =
  ownKeys :: "(string \<times> json) list"
  protoObj :: "json option"

definition emptyFieldMap :: fieldMap where
  "emptyFieldMap = \<lparr>ownKeys = [], protoObj = None\<rparr>"

fun isObject :: "json \<Rightarrow> bool" where
  "isObject (JObj kvs) = True"
| "isObject (JArr xs) = True"
| "isObject v = False"

definition lookupField :: "fieldMap \<Rightarrow> string \<Rightarrow> json option" where
  "lookupField fm k =
     (case map_of (ownKeys fm) k of
        Some v \<Rightarrow> Some v
      | None \<Rightarrow> (case protoObj fm of Some (JObj kvs) \<Rightarrow> map_of kvs k | _ \<Rightarrow> None))"

definition assignField :: "string \<Rightarrow> json \<Rightarrow> fieldMap \<Rightarrow> fieldMap" where
  "assignField k v fm =
     (if k = ''__proto__'' then (if isObject v then fm\<lparr>protoObj := Some v\<rparr> else fm)
      else fm\<lparr>ownKeys := assign k v (ownKeys fm)\<rparr>)"

text \<open>One round of the \<^verbatim>\<open>forEach\<close> of \<^verbatim>\<open>getCustomFieldKeys\<close>.\<close>

definition addField :: "fieldMap \<Rightarrow> json \<Rightarrow> exn + fieldMap" where
  "addField fm field =
     (case getProp field ''title'' of
        Inl e \<Rightarrow> Inl e
      | Inr title \<Rightarrow>
          (case orElse (propOf field ''key'') (propOf field ''id'') of
             Some keyOrId \<Rightarrow>
               if truthy title \<and> truthy (Some keyOrId)
               then (case normalizeFieldLabel title of
                       Inl e \<Rightarrow> Inl e
                     | Inr normalizedTitle \<Rightarrow>
                         (case toString keyOrId of
                            Inl e \<Rightarrow> Inl e
                          | Inr logged \<Rightarrow> Inr (assignField normalizedTitle keyOrId fm)))
               else Inr fm
           | None \<Rightarrow> Inr fm))"

fun addFields :: "fieldMap \<Rightarrow> json list \<Rightarrow> exn + fieldMap" where
  "addFields fm [] = Inr fm"
| "addFields fm (field # rest) =
     (case addField fm field of Inl e \<Rightarrow> Inl e | Inr fm' \<Rightarrow> addFields fm' rest)"

definition buildFieldMap :: "json \<Rightarrow> exn + fieldMap" where
  "buildFieldMap parsedBody =
     (case parsedBody of JArr xs \<Rightarrow> addFields emptyFieldMap xs | _ \<Rightarrow> Inr emptyFieldMap)"


subsection \<open>Custom fields of a request\<close>

text \<open>
  The three blocks that fill \<^verbatim>\<open>customFields\<close>; \<open>d\<close> is
  \<^verbatim>\<open>affiliateData\<close>. The create-only and the legacy mode run all three, the
  finalize mode the last two, the update mode the second.
\<close>

definition addCompanyType :: "json \<Rightarrow> fieldMap \<Rightarrow> customFields \<Rightarrow> exn + customFields" where
  "addCompanyType d fieldKeyMap cf =
     (if truthy (propOf d ''company_type'')
      then (let companyTypeKey = lookupField fieldKeyMap (normalizeLabel ''Company type'') in
            if truthy companyTypeKey
            then (case lookupOr companyTypeLabels (propOf d ''company_type'') of
                    Inl e \<Rightarrow> Inl e
                  | Inr companyTypeValue \<Rightarrow>
                      (case toStringU companyTypeKey of
                         Inl e \<Rightarrow> Inl e
                       | Inr k \<Rightarrow> Inr (setField k (refJson companyTypeValue) cf)))
            else Inr cf)
      else Inr cf)"

definition commissionTypeValue :: "json option \<Rightarrow> json" where
  "commissionTypeValue commission_type =
     (case commission_type of
        Some (JStr s) \<Rightarrow>
          if s \<in> set validCommissionTypes then JStr s else JStr (validCommissionTypes ! 0)
      | _ \<Rightarrow> JStr (validCommissionTypes ! 0))"

definition addCommissionType :: "json \<Rightarrow> fieldMap \<Rightarrow> customFields \<Rightarrow> exn + customFields" where
  "addCommissionType d fieldKeyMap cf =
     (if truthy (propOf d ''commission_type'')
      then (let commissionKey = lookupField fieldKeyMap (normalizeLabel ''Commission type'') in
            if truthy commissionKey
            then (case toStringU commissionKey of
                    Inl e \<Rightarrow> Inl e
                  | Inr k \<Rightarrow>
                      Inr (setField k (Some (commissionTypeValue (propOf d ''commission_type''))) cf))
            else Inr cf)
      else Inr cf)"

definition addDemoCall :: "json \<Rightarrow> fieldMap \<Rightarrow> customFields \<Rightarrow> exn + customFields" where
  "addDemoCall d fieldKeyMap cf =
     (if propOf d ''wantsDemoCall'' \<noteq> None \<and> propOf d ''wantsDemoCall'' \<noteq> Some JNull
      then (let demoCallKey =
                  orElse (lookupField fieldKeyMap (normalizeLabel ''Free DEMO call?''))
                         (lookupField fieldKeyMap (normalizeLabel ''Do you want a FREE DEMO call?'')) in
            if truthy demoCallKey
            then (case toStringU demoCallKey of
                    Inl e \<Rightarrow> Inl e
                  | Inr k \<Rightarrow>
                      Inr (setField k
                             (Some (JStr (if truthy (propOf d ''wantsDemoCall'') then ''Yes'' else ''No'')))
                             cf))
            else Inr cf)
      else Inr cf)"

definition creationFields :: "json \<Rightarrow> fieldMap \<Rightarrow> exn + customFields" where
  "creationFields d fieldKeyMap =
     (case addCompanyType d fieldKeyMap [] of
        Inl e \<Rightarrow> Inl e
      | Inr cf1 \<Rightarrow>
          (case addCommissionType d fieldKeyMap cf1 of
             Inl e \<Rightarrow> Inl e
           | Inr cf2 \<Rightarrow> addDemoCall d fieldKeyMap cf2))"

definition finalizeFields :: "json \<Rightarrow> fieldMap \<Rightarrow> exn + customFields" where
  "finalizeFields d fieldKeyMap =
     (case addCommissionType d fieldKeyMap [] of
        Inl e \<Rightarrow> Inl e
      | Inr cf1 \<Rightarrow> addDemoCall d fieldKeyMap cf1)"

text \<open>
  The update mode first writes every own entry of the map into a template literal, then
  runs the commission block.
\<close>

fun logEntries :: "json list \<Rightarrow> exn + unit" where
  "logEntries [] = Inr ()"
| "logEntries (v # vs) = (case toString v of Inl e \<Rightarrow> Inl e | Inr t \<Rightarrow> logEntries vs)"

definition updateFields :: "json \<Rightarrow> fieldMap \<Rightarrow> exn + customFields" where
  "updateFields d fieldKeyMap =
     (case logEntries (map snd (ownKeys fieldKeyMap)) of
        Inl e \<Rightarrow> Inl e
      | Inr u \<Rightarrow> addCommissionType d fieldKeyMap [])"

subsection \<open>The creation payload\<close>

definition orDefault :: "json option \<Rightarrow> json \<Rightarrow> json" where
  "orDefault a b = (case a of Some v \<Rightarrow> if truthy a then v else b | None \<Rightarrow> b)"

definition describedTypes :: "string list" where
  "describedTypes = [''pms'', ''venue'', ''blog'', ''tour-operator'', ''transportations'', ''other'']"

text \<open>
  The company description both \<^verbatim>\<open>buildTapfiliatePayload\<close> and the finalize mode
  derive from \<^verbatim>\<open>company_type\<close>; \<open>None\<close> is \<^verbatim>\<open>null\<close>.
\<close>

definition companyDescriptionFor :: "json option \<Rightarrow> json option \<Rightarrow> json option" where
  "companyDescriptionFor company_type company_description =
     (if company_type = Some (JStr ''vacation-rental'') then Some (JStr ''STR'')
      else if truthy company_type \<and> company_type \<in> set (map (\<lambda>t. Some (JStr t)) describedTypes)
      then (if truthy company_description then company_description else None)
      else None)"

text \<open>The final loop of \<^verbatim>\<open>buildTapfiliatePayload\<close>, which deletes empty entries.\<close>

definition keepEntry :: "string \<times> json option \<Rightarrow> (string \<times> json) option" where
  "keepEntry kv =
     (case snd kv of
        None \<Rightarrow> None
      | Some v \<Rightarrow> if v = JNull \<or> v = JStr [] then None else Some (fst kv, v))"

definition buildTapfiliatePayload :: "json \<Rightarrow> exn + (string \<times> json) list" where
  "buildTapfiliatePayload d =
     (case getCountryISOCode (propOf d ''country'') of
        Inl e \<Rightarrow> Inl e
      | Inr countryCode \<Rightarrow>
          (let address = JObj [(''address'', JStr ''n/a''), (''postal_code'', JStr ''n/a''),
                               (''city'', orDefault (propOf d ''city'') (JStr ''n/a'')),
                               (''country'', JObj [(''code'', JStr countryCode)])];
               company = JObj [(''name'', orDefault (propOf d ''company'') (JStr ''n/a''))];
               companyDescription =
                 companyDescriptionFor (propOf d ''company_type'') (propOf d ''company_description'');
               payload = [(''firstname'', propOf d ''first_name''),
                          (''lastname'', propOf d ''last_name''),
                          (''email'', propOf d ''email''),
                          (''password'', propOf d ''password''),
                          (''address'', Some address),
                          (''company'', Some company)]
                         @ (if truthy companyDescription
                            then [(''company_description'', companyDescription)] else [])
           in Inr (List.map_filter keepEntry payload)))"

definition keepDefined :: "string \<times> json option \<Rightarrow> (string \<times> json) option" where
  "keepDefined kv = map_option (Pair (fst kv)) (snd kv)"

subsection \<open>Responses\<close>

datatype body = Raw string | Stringified json

record response =
  statusCode :: nat
  headers :: "(string \<times> string) list"
  body :: body

definition corsHeaders :: "(string \<times> string) list" where
  "corsHeaders =
     [(''Access-Control-Allow-Origin'', ''*''),
      (''Access-Control-Allow-Headers'', ''Content-Type''),
      (''Access-Control-Allow-Methods'', ''POST, OPTIONS''),
      (''Content-Type'', ''application/json'')]"

definition respond :: "nat \<Rightarrow> (string \<times> json) list \<Rightarrow> response" where
  "respond code obj = \<lparr>statusCode = code, headers = corsHeaders, body = Stringified (JObj obj)\<rparr>"

definition badRequest :: "string \<Rightarrow> response" where
  "badRequest msg = respond 400 [(''error'', JStr msg)]"

text \<open>A field of the request counts as missing, in the two modes that list the missing names.\<close>

definition isMissing :: "json \<Rightarrow> string \<Rightarrow> bool" where
  "isMissing d field =
     (case propOf d field of
        None \<Rightarrow> True
      | Some JNull \<Rightarrow> True
      | Some (JStr s) \<Rightarrow> trim s = []
      | Some v \<Rightarrow> False)"


section \<open>The vendor and the effects of a request\<close>

text \<open>
  The answer of the vendor to one \<^verbatim>\<open>fetch\<close>: the promise rejects, or a response
  arrives. \<open>parsed\<close> is \<^verbatim>\<open>JSON.parse\<close> of the response text (what
  \<^verbatim>\<open>response.json()\<close> gives), \<open>Inl\<close> the message of its SyntaxError; the text
  itself is only logged.
\<close>

record vresponse =
  status :: nat
  contentType :: "string option"
  parsed :: "string + json"

datatype fetch_result = Rejected string | Responded vresponse

definition ok :: "vresponse \<Rightarrow> bool" where
  "ok r = (200 \<le> status r \<and> status r \<le> 299)"

text \<open>
  The six outbound calls, each with the interpolated part of its URL and the value it
  serialises as body. Every call carries the API key of the environment in a header.
\<close>

datatype call =
    GetCustomFields
  | PostAffiliate json
  | PatchAffiliate string json
  | PutWebsite string json
  | PostParent string json
  | PostEnroll segment json

text \<open>
  The state a request runs in: the calls issued so far with their answers, and the two
  module variables of the cache.
\<close>

record world =
  trace :: "(call \<times> fetch_result) list"
  customFieldsCache :: "fieldMap option"
  cacheTimestamp :: "int option"

text \<open>
  What a request reads from outside: the environment variable, the vendor (which may
  answer by what it has seen so far) and the clock \<^verbatim>\<open>Date.now()\<close>.
\<close>

record env =
  apiKey :: "string option"
  vendor :: "(call \<times> fetch_result) list \<Rightarrow> call \<Rightarrow> fetch_result"
  now :: int

type_synonym 'a js = "world \<Rightarrow> (exn + 'a) \<times> world"

definition ret :: "'a \<Rightarrow> 'a js" where
  "ret x = (\<lambda>w. (Inr x, w))"

definition liftE :: "exn + 'a \<Rightarrow> 'a js" where
  "liftE r = (\<lambda>w. (r, w))"

definition bnd :: "'a js \<Rightarrow> ('a \<Rightarrow> 'b js) \<Rightarrow> 'b js" where
  "bnd m f = (\<lambda>w. case m w of (Inl e, w') \<Rightarrow> (Inl e, w') | (Inr x, w') \<Rightarrow> f x w')"

definition tryCatch :: "'a js \<Rightarrow> (exn \<Rightarrow> 'a js) \<Rightarrow> 'a js" where
  "tryCatch m h = (\<lambda>w. case m w of (Inl e, w') \<Rightarrow> h e w' | (Inr x, w') \<Rightarrow> (Inr x, w'))"

definition fetch :: "env \<Rightarrow> call \<Rightarrow> vresponse js" where
  "fetch en c =
     (\<lambda>w. let r = vendor en (trace w) c;
               w' = w\<lparr>trace := trace w @ [(c, r)]\<rparr>
           in (case r of Rejected m \<Rightarrow> (Inl (NetworkError m), w') | Responded resp \<Rightarrow> (Inr resp, w')))"

definition responseJson :: "vresponse \<Rightarrow> exn + json" where
  "responseJson r = (case parsed r of Inl m \<Rightarrow> Inl (SyntaxError m) | Inr j \<Rightarrow> Inr j)"

definition isHtml :: "vresponse \<Rightarrow> bool" where
  "isHtml r = (case contentType r of None \<Rightarrow> False | Some ct \<Rightarrow> ct \<noteq> [] \<and> includesStr ct ''text/html'')"

subsection \<open>getCustomFieldKeys\<close>

definition CACHE_DURATION :: int where
  "CACHE_DURATION = 0"

definition cacheValid :: "env \<Rightarrow> world \<Rightarrow> bool" where
  "cacheValid en w =
     (case customFieldsCache w of
        None \<Rightarrow> False
      | Some fm \<Rightarrow>
          (case cacheTimestamp w of
             None \<Rightarrow> False
           | Some t \<Rightarrow> t \<noteq> 0 \<and> now en - t < CACHE_DURATION
                        \<and> truthy (lookupField fm (normalizeLabel ''Commission type''))))"

definition storeCache :: "env \<Rightarrow> fieldMap \<Rightarrow> unit js" where
  "storeCache en fm =
     (\<lambda>w. (Inr (), w\<lparr>customFieldsCache := Some fm, cacheTimestamp := Some (now en)\<rparr>))"

definition getCustomFieldKeys :: "env \<Rightarrow> (fieldMap option) js" where
  "getCustomFieldKeys en =
     (\<lambda>w. if cacheValid en w then (Inr (customFieldsCache w), w)
           else tryCatch
                  (bnd (fetch en GetCustomFields) (\<lambda>response.
                     if \<not> ok response then ret None
                     else bnd (liftE (responseJson response)) (\<lambda>parsedBody.
                          bnd (liftE (buildFieldMap parsedBody)) (\<lambda>fm.
                          bnd (storeCache en fm) (\<lambda>u. ret (Some fm))))))
                  (\<lambda>error. ret None) w)"

subsection \<open>The parent link\<close>

text \<open>
  The block that follows a successful creation (create-only mode) or a successful
  enrollment (finalize and legacy mode): \<^verbatim>\<open>validateParentId\<close> runs outside the
  \<^verbatim>\<open>try\<close>, the call and the interpolation of the affiliate id inside it.
\<close>

definition setParent :: "env \<Rightarrow> json option \<Rightarrow> json option \<Rightarrow> unit js" where
  "setParent en affiliateId rawParentId =
     bnd (liftE (validateParentId rawParentId)) (\<lambda>parentId.
       case parentId of
         None \<Rightarrow> ret ()
       | Some p \<Rightarrow>
           if p \<noteq> []
           then tryCatch
                  (bnd (liftE (toStringU affiliateId)) (\<lambda>idText.
                   bnd (fetch en (PostParent idText (JObj [(''via'', JStr p)]))) (\<lambda>r. ret ())))
                  (\<lambda>parentError. ret ())
           else ret ())"

subsection \<open>Creation and enrollment\<close>

definition retryLater :: string where
  "retryLater = ''Something went wrong while creating your affiliate account. Please try again later.''"

fun errorItems :: "json list \<Rightarrow> exn + json list" where
  "errorItems [] = Inr []"
| "errorItems (e # es) =
     (case getProp e ''message'' of
        Inl x \<Rightarrow> Inl x
      | Inr m \<Rightarrow>
          (case errorItems es of
             Inl x \<Rightarrow> Inl x
           | Inr ms \<Rightarrow> Inr ((if truthy m then (case m of Some v \<Rightarrow> v | None \<Rightarrow> e) else e) # ms)))"

definition vendorErrorMessage :: "json \<Rightarrow> exn + json" where
  "vendorErrorMessage errorJson =
     (case getProp errorJson ''errors'' of
        Inl x \<Rightarrow> Inl x
      | Inr errors \<Rightarrow>
          (case errors of
             Some (JArr es) \<Rightarrow>
               (case errorItems es of
                  Inl x \<Rightarrow> Inl x
                | Inr ms \<Rightarrow>
                    (case elemStrings ms of
                       Inl x \<Rightarrow> Inl x
                     | Inr ss \<Rightarrow> Inr (JStr (joinWith '', '' ss))))
           | _ \<Rightarrow>
               Inr (if truthy (propOf errorJson ''message'')
                    then orDefault (propOf errorJson ''message'') (JStr ''Failed to create affiliate'')
                    else JStr ''Failed to create affiliate'')))"

definition createErrorResponse :: "vresponse \<Rightarrow> response" where
  "createErrorResponse r =
     (if isHtml r
      then respond 500 [(''error'', JStr retryLater), (''status'', JNum (int (status r)))]
      else (let errorMessage =
                  (case parsed r of
                     Inl m \<Rightarrow> JStr retryLater
                   | Inr errorJson \<Rightarrow>
                       (case vendorErrorMessage errorJson of
                          Inl x \<Rightarrow> JStr retryLater
                        | Inr msg \<Rightarrow> msg))
            in respond (status r) [(''error'', errorMessage), (''status'', JNum (int (status r)))]))"

definition enrollErrorResponse :: "vresponse \<Rightarrow> response" where
  "enrollErrorResponse r =
     (if isHtml r
      then respond 500 [(''error'', JStr retryLater), (''status'', JNum (int (status r)))]
      else respond (if status r \<noteq> 0 then status r else 500)
             [(''error'', JStr ''Affiliate created but failed to enroll in program.''),
              (''status'', JNum (int (status r)))])"

text \<open>
  The payload the create-only and the legacy mode post: the built payload, with
  \<^verbatim>\<open>custom_fields\<close> when the catalog could be read and a field was set.
\<close>

definition creationPayload :: "env \<Rightarrow> json \<Rightarrow> ((string \<times> json) list) js" where
  "creationPayload en d =
     bnd (liftE (buildTapfiliatePayload d)) (\<lambda>tapfiliatePayload.
     bnd (getCustomFieldKeys en) (\<lambda>fieldKeyMap.
       case fieldKeyMap of
         None \<Rightarrow> ret tapfiliatePayload
       | Some fm \<Rightarrow>
           bnd (liftE (creationFields d fm)) (\<lambda>cf.
             ret (if cf \<noteq> []
                  then assign ''custom_fields'' (stringifyFields cf) tapfiliatePayload
                  else tapfiliatePayload))))"

text \<open>The optional website metadata, best effort.\<close>

definition setWebsite :: "env \<Rightarrow> json option \<Rightarrow> json option \<Rightarrow> unit js" where
  "setWebsite en affiliateId metadata =
     (case metadata of
        Some md \<Rightarrow>
          if truthy metadata \<and> truthy (propOf md ''website'')
          then tryCatch
                 (bnd (liftE (toStringU affiliateId)) (\<lambda>idText.
                  bnd (fetch en (PutWebsite idText
                                   (JObj [(''value'', orDefault (propOf md ''website'') JNull)])))
                      (\<lambda>r. ret ())))
                 (\<lambda>metaError. ret ())
          else ret ()
      | None \<Rightarrow> ret ())"

definition enrollmentPayload :: "json option \<Rightarrow> json" where
  "enrollmentPayload affiliateId =
     JObj [(''affiliate'', JObj (List.map_filter keepDefined [(''id'', affiliateId)])),
           (''approved'', JNull)]"


section \<open>The four modes\<close>

text \<open>Mode \<^verbatim>\<open>create_affiliate_only\<close>.\<close>

definition createAffiliateOnly :: "env \<Rightarrow> json \<Rightarrow> response js" where
  "createAffiliateOnly en d =
     (let missingStageA = filter (isMissing d) [''first_name'', ''last_name'', ''email'', ''password''] in
      if missingStageA \<noteq> []
      then ret (badRequest (''Missing required fields: '' @ joinWith '', '' missingStageA))
      else
        bnd (creationPayload en d) (\<lambda>tapfiliatePayloadStageA.
        bnd (fetch en (PostAffiliate (JObj tapfiliatePayloadStageA))) (\<lambda>createResponseStageA.
          if \<not> ok createResponseStageA then ret (createErrorResponse createResponseStageA)
          else
            bnd (liftE (responseJson createResponseStageA)) (\<lambda>affiliateStageA.
              if \<not> truthy (Some affiliateStageA) \<or> \<not> truthy (propOf affiliateStageA ''id'')
              then ret (respond 500 [(''error'', JStr ''Invalid response from Tapfiliate API'')])
              else
                bnd (setParent en (propOf affiliateStageA ''id'') (propOf d ''parent_id'')) (\<lambda>u.
                  ret (respond 200
                         [(''success'', JBool True), (''mode'', JStr ''create_affiliate_only''),
                          (''affiliate_id'', orDefault (propOf affiliateStageA ''id'') JNull)]))))))"

text \<open>Mode \<^verbatim>\<open>finalize_affiliate\<close>: the update payload, the best-effort PATCH, the flow.\<close>

definition finalizeUpdatePayload :: "json \<Rightarrow> customFields \<Rightarrow> (string \<times> json) list" where
  "finalizeUpdatePayload d cf =
     (let address = propOf d ''address'';
          company = propOf d ''company'';
          companyDescriptionToAdd =
            companyDescriptionFor (propOf d ''company_type'') (propOf d ''company_description'')
      in (if truthy address then [(''address'', orDefault address JNull)] else [])
         @ (if truthy company
            then [(''company'',
                   JObj (if truthy companyDescriptionToAdd
                         then assign ''description'' (orDefault companyDescriptionToAdd JNull)
                                (spread (orDefault company JNull))
                         else spread (orDefault company JNull)))]
            else if truthy companyDescriptionToAdd
            then [(''company'', JObj [(''name'', JStr ''n/a''),
                                      (''description'', orDefault companyDescriptionToAdd JNull)])]
            else [])
         @ (if cf \<noteq> [] then [(''custom_fields'', stringifyFields cf)] else []))"

definition updateAffiliate :: "env \<Rightarrow> json option \<Rightarrow> (string \<times> json) list \<Rightarrow> unit js" where
  "updateAffiliate en affiliateId updatePayload =
     (if updatePayload \<noteq> []
      then tryCatch
             (bnd (liftE (toStringU affiliateId)) (\<lambda>idText.
              bnd (fetch en (PatchAffiliate idText (JObj updatePayload))) (\<lambda>r. ret ())))
             (\<lambda>updateError. ret ())
      else ret ())"

definition finalizeAffiliate :: "env \<Rightarrow> json \<Rightarrow> response js" where
  "finalizeAffiliate en d =
     (let affiliate_id = propOf d ''affiliate_id'' in
      if \<not> truthy affiliate_id
      then ret (badRequest ''Missing affiliate_id for finalize_affiliate mode'')
      else
        bnd (liftE (lookupOr PROGRAM_ID_MAP (propOf d ''program''))) (\<lambda>mappedProgramIdFinalize.
          if \<not> truthyRef mappedProgramIdFinalize
          then ret (badRequest ''Missing or invalid program selection'')
          else
            bnd (getCustomFieldKeys en) (\<lambda>fieldKeyMap.
            bnd (liftE (case fieldKeyMap of None \<Rightarrow> Inr [] | Some fm \<Rightarrow> finalizeFields d fm)) (\<lambda>cf.
            bnd (updateAffiliate en affiliate_id (finalizeUpdatePayload d cf)) (\<lambda>u1.
            bnd (setWebsite en affiliate_id (propOf d ''metadata'')) (\<lambda>u2.
            bnd (liftE (refSegment mappedProgramIdFinalize)) (\<lambda>programText.
            bnd (fetch en (PostEnroll programText (enrollmentPayload affiliate_id)))
                (\<lambda>addToProgramResponseFinalize.
              if \<not> ok addToProgramResponseFinalize
              then ret (enrollErrorResponse addToProgramResponseFinalize)
              else
                bnd (liftE (responseJson addToProgramResponseFinalize)) (\<lambda>programResultFinalize.
                bnd (setParent en affiliate_id (propOf d ''parent_id'')) (\<lambda>u3.
                  ret (respond 200
                         [(''success'', JBool True), (''mode'', JStr ''finalize_affiliate''),
                          (''affiliate_id'', orDefault affiliate_id JNull),
                          (''program'', programResultFinalize)])))))))))))"

text \<open>Mode \<^verbatim>\<open>update_custom_fields\<close>.\<close>

definition updateCustomFields :: "env \<Rightarrow> json \<Rightarrow> response js" where
  "updateCustomFields en d =
     (let affiliate_id = propOf d ''affiliate_id'' in
      if \<not> truthy affiliate_id
      then ret (badRequest ''Missing affiliate_id for update_custom_fields mode'')
      else
        bnd (getCustomFieldKeys en) (\<lambda>fieldKeyMap.
        bnd (liftE (case fieldKeyMap of None \<Rightarrow> Inr [] | Some fm \<Rightarrow> updateFields d fm)) (\<lambda>cf.
          if cf \<noteq> []
          then
            bnd (liftE (toStringU affiliate_id)) (\<lambda>idText.
              tryCatch
                (bnd (fetch en (PatchAffiliate idText (JObj [(''custom_fields'', stringifyFields cf)])))
                     (\<lambda>updateResponse.
                   if \<not> ok updateResponse
                   then ret (respond (status updateResponse)
                               [(''error'', JStr ''Failed to update commission type''),
                                (''status'', JNum (int (status updateResponse)))])
                   else ret (respond 200
                               [(''success'', JBool True), (''mode'', JStr ''update_custom_fields''),
                                (''affiliate_id'', orDefault affiliate_id JNull)])))
                (\<lambda>updateError.
                   ret (respond 500
                          [(''error'', JStr ''Internal server error while updating custom fields''),
                           (''message'', JStr (message updateError))])))
          else ret (respond 200
                      [(''success'', JBool True), (''mode'', JStr ''update_custom_fields''),
                       (''affiliate_id'', orDefault affiliate_id JNull),
                       (''message'', JStr ''No custom fields to update'')]))))"

text \<open>The legacy mode (no \<^verbatim>\<open>mode\<close>, or any other value of it).\<close>

definition legacyMode :: "env \<Rightarrow> json \<Rightarrow> response js" where
  "legacyMode en d =
     bnd (liftE (lookupOr PROGRAM_ID_MAP (propOf d ''program''))) (\<lambda>mappedProgramId.
       if \<not> truthyRef mappedProgramId
       then ret (badRequest ''Missing or invalid program selection'')
       else
         (let missing = filter (isMissing d)
                          [''first_name'', ''last_name'', ''email'', ''password'',
                           ''city'', ''country'', ''company''] in
          if missing \<noteq> []
          then ret (badRequest (''Missing required fields: '' @ joinWith '', '' missing))
          else
            bnd (creationPayload en d) (\<lambda>tapfiliatePayload.
            bnd (fetch en (PostAffiliate (JObj tapfiliatePayload))) (\<lambda>createResponse.
              if \<not> ok createResponse then ret (createErrorResponse createResponse)
              else
                bnd (liftE (responseJson createResponse)) (\<lambda>affiliate.
                  if \<not> truthy (Some affiliate) \<or> \<not> truthy (propOf affiliate ''id'')
                  then ret (respond 500 [(''error'', JStr ''Invalid response from Tapfiliate API'')])
                  else
                    bnd (setWebsite en (propOf affiliate ''id'') (propOf d ''metadata'')) (\<lambda>u1.
                    bnd (liftE (refSegment mappedProgramId)) (\<lambda>programText.
                    bnd (fetch en (PostEnroll programText (enrollmentPayload (propOf affiliate ''id''))))
                        (\<lambda>addToProgramResponse.
                      if \<not> ok addToProgramResponse
                      then ret (enrollErrorResponse addToProgramResponse)
                      else
                        bnd (liftE (responseJson addToProgramResponse)) (\<lambda>programResult.
                        bnd (setParent en (propOf affiliate ''id'') (propOf d ''parent_id'')) (\<lambda>u2.
                          ret (respond 200
                                 [(''success'', JBool True), (''affiliate'', affiliate),
                                  (''program'', programResult)])))))))))))"

section \<open>The handler\<close>

text \<open>
  The event of one invocation: its method, and \<^verbatim>\<open>JSON.parse(event.body)\<close>
  (\<open>Inl\<close> the message of the SyntaxError it throws).
\<close>

record event =
  httpMethod :: string
  requestBody :: "string + json"

definition keySet :: "string option \<Rightarrow> bool" where
  "keySet k = (case k of None \<Rightarrow> False | Some s \<Rightarrow> s \<noteq> [])"

text \<open>The \<^verbatim>\<open>try\<close> block of the handler.\<close>

definition handlerBody :: "env \<Rightarrow> event \<Rightarrow> response js" where
  "handlerBody en ev =
     (if \<not> keySet (apiKey en)
      then ret (respond 500 [(''error'', JStr ''Server configuration error: API key not set.'')])
      else
        bnd (liftE (case requestBody ev of Inl m \<Rightarrow> Inl (SyntaxError m) | Inr j \<Rightarrow> Inr j))
            (\<lambda>affiliateData.
        bnd (liftE (getProp affiliateData ''mode'')) (\<lambda>rawMode.
          (let mode = orElse rawMode (Some JNull) in
           if mode = Some (JStr ''create_affiliate_only'') then createAffiliateOnly en affiliateData
           else if mode = Some (JStr ''finalize_affiliate'') then finalizeAffiliate en affiliateData
           else if mode = Some (JStr ''update_custom_fields'') then updateCustomFields en affiliateData
           else legacyMode en affiliateData))))"

definition handler :: "env \<Rightarrow> event \<Rightarrow> world \<Rightarrow> response \<times> world" where
  "handler en ev w =
     (if httpMethod ev \<noteq> ''POST''
      then (respond 405 [(''error'', JStr ''Method not allowed'')], w)
      else if httpMethod ev = ''OPTIONS''
      then (\<lparr>statusCode = 200, headers = corsHeaders, body = Raw []\<rparr>, w)
      else (case handlerBody en ev w of
              (Inl error, w') \<Rightarrow>
                (respond 500 [(''error'', JStr ''Internal server error''),
                              (''message'', JStr (message error))], w')
            | (Inr r, w') \<Rightarrow> (r, w')))"


section \<open>Properties of a run\<close>

text \<open>
  A postcondition on a computation: from every state it appends some calls \<open>cs\<close> to
  the trace, and its result and these calls satisfy \<open>Q\<close>.
\<close>

definition post :: "'a js \<Rightarrow> ((exn + 'a) \<Rightarrow> (call \<times> fetch_result) list \<Rightarrow> bool) \<Rightarrow> bool" where
  "post m Q = (\<forall>w. \<exists>cs. trace (snd (m w)) = trace w @ cs \<and> Q (fst (m w)) cs)"

text \<open>The same from one given state \<open>w\<close>.\<close>

definition postFrom :: "world \<Rightarrow> 'a js \<Rightarrow> ((exn + 'a) \<Rightarrow> (call \<times> fetch_result) list \<Rightarrow> bool) \<Rightarrow> bool" where
  "postFrom w m Q = (\<exists>cs. trace (snd (m w)) = trace w @ cs \<and> Q (fst (m w)) cs)"

text \<open>\<^verbatim>\<open>const mode = affiliateData.mode || null\<close>, and the three values with a branch.\<close>

definition modeOf :: "json \<Rightarrow> json option" where
  "modeOf d = orElse (propOf d ''mode'') (Some JNull)"

definition namedModes :: "json option list" where
  "namedModes = [Some (JStr ''create_affiliate_only''), Some (JStr ''finalize_affiliate''),
                 Some (JStr ''update_custom_fields'')]"




fun isEnroll :: "call \<Rightarrow> bool" where
  "isEnroll (PostEnroll s b) = True"
| "isEnroll c = False"

fun isPatch :: "call \<Rightarrow> bool" where
  "isPatch (PatchAffiliate t b) = True"
| "isPatch c = False"





text \<open>A country string that matches a name of the table, as the loop compares them.\<close>

definition recognized :: "string \<Rightarrow> bool" where
  "recognized s = list_ex (\<lambda>kc. toLowerCase (fst kc) = toLowerCase (trim s)) countryMap"

text \<open>A PATCH whose body is one custom field with one of the three commission values.\<close>

definition carriesCommission :: "json \<Rightarrow> bool" where
  "carriesCommission b =
     (case b of
        JObj [(k, JObj [(f, v)])] \<Rightarrow> k = ''custom_fields'' \<and> v \<in> set (map JStr validCommissionTypes)
      | _ \<Rightarrow> False)"

fun commissionOnly :: "call \<Rightarrow> bool" where
  "commissionOnly (PatchAffiliate t b) = carriesCommission b"
| "commissionOnly c = True"

text \<open>
  The keys a catalog gives the commission field and the demo-call field, as the blocks of
  the modes look them up.
\<close>

definition commissionFieldKey :: "fieldMap \<Rightarrow> json option" where
  "commissionFieldKey fm = lookupField fm (normalizeLabel ''Commission type'')"

definition demoFieldKey :: "fieldMap \<Rightarrow> json option" where
  "demoFieldKey fm =
     orElse (lookupField fm (normalizeLabel ''Free DEMO call?''))
            (lookupField fm (normalizeLabel ''Do you want a FREE DEMO call?''))"

text \<open>
  The commission block writes an own property \<open>k\<close>: the request has a truthy
  \<^verbatim>\<open>commission_type\<close> and the catalog resolves the label to a key whose text is
  \<open>k\<close> (an assignment to \<^verbatim>\<open>__proto__\<close> would write none).
\<close>

definition commissionWritten :: "json \<Rightarrow> fieldMap \<Rightarrow> string \<Rightarrow> bool" where
  "commissionWritten d fm k =
     (truthy (propOf d ''commission_type'') \<and> truthy (commissionFieldKey fm) \<and>
      toStringU (commissionFieldKey fm) = Inr k \<and> k \<noteq> ''__proto__'')"

text \<open>
  The demo-call block writes the property \<open>k\<close>, and the value it writes. The
  update mode is the one mode without this block.
\<close>

definition demoCallWrites :: "json \<Rightarrow> fieldMap \<Rightarrow> string \<Rightarrow> bool" where
  "demoCallWrites d fm k =
     (propOf d ''wantsDemoCall'' \<noteq> None \<and> propOf d ''wantsDemoCall'' \<noteq> Some JNull \<and>
      truthy (demoFieldKey fm) \<and> toStringU (demoFieldKey fm) = Inr k)"

definition demoCallValue :: "json \<Rightarrow> json" where
  "demoCallValue d = JStr (if truthy (propOf d ''wantsDemoCall'') then ''Yes'' else ''No'')"

definition runsDemoBlock :: "json \<Rightarrow> bool" where
  "runsDemoBlock d = (modeOf d \<noteq> Some (JStr ''update_custom_fields''))"

definition sentValue :: "bool \<Rightarrow> json \<Rightarrow> fieldMap \<Rightarrow> string \<Rightarrow> json" where
  "sentValue demo d fm k =
     (if demo \<and> demoCallWrites d fm k then demoCallValue d
      else commissionTypeValue (propOf d ''commission_type''))"

text \<open>
  The custom field \<open>k\<close> of a request body, and: a creation or a PATCH carries the
  value \<open>v\<close> in that field (any other call has no custom fields).
\<close>

definition customField :: "json \<Rightarrow> string \<Rightarrow> json option" where
  "customField b k = (case propOf b ''custom_fields'' of Some cf \<Rightarrow> propOf cf k | None \<Rightarrow> None)"

fun carriesField :: "string \<Rightarrow> json \<Rightarrow> call \<Rightarrow> bool" where
  "carriesField k v (PostAffiliate b) = (customField b k = Some v)"
| "carriesField k v (PatchAffiliate t b) = (customField b k = Some v)"
| "carriesField k v c = True"

text \<open>The clock has not run backwards since the catalog was cached.\<close>

definition clockNotBehind :: "env \<Rightarrow> world \<Rightarrow> bool" where
  "clockNotBehind en w = (case cacheTimestamp w of None \<Rightarrow> True | Some t \<Rightarrow> t \<le> now en)"






section \<open>Sample requests and vendors\<close>

text \<open>The state of a fresh container, and a vendor that accepts everything but the parent link.\<close>

definition coldWorld :: world where
  "coldWorld = \<lparr>trace = [], customFieldsCache = None, cacheTimestamp = None\<rparr>"

definition reply :: "nat \<Rightarrow> json \<Rightarrow> fetch_result" where
  "reply code j = Responded \<lparr>status = code, contentType = Some ''application/json'', parsed = Inr j\<rparr>"

definition sampleCatalog :: json where
  "sampleCatalog =
     JArr [JObj [(''id'', JNum 11), (''title'', JStr ''Company type''), (''key'', JStr ''company-type'')],
           JObj [(''id'', JNum 12), (''title'', JStr ''Commission type''), (''key'', JStr ''commission-type'')]]"

fun sampleVendor :: "(call \<times> fetch_result) list \<Rightarrow> call \<Rightarrow> fetch_result" where
  "sampleVendor h GetCustomFields = reply 200 sampleCatalog"
| "sampleVendor h (PostAffiliate p) = reply 201 (JObj [(''id'', JStr ''alice-smith'')])"
| "sampleVendor h (PatchAffiliate t p) = reply 200 (JObj [(''id'', JStr t)])"
| "sampleVendor h (PutWebsite t p) = reply 200 p"
| "sampleVendor h (PostParent t p) = reply 404 (JObj [(''message'', JStr ''Affiliate not found'')])"
| "sampleVendor h (PostEnroll s p) = reply 200 (JObj [(''approved'', JNull)])"




definition sampleEnv :: "((call \<times> fetch_result) list \<Rightarrow> call \<Rightarrow> fetch_result) \<Rightarrow> env" where
  "sampleEnv v = \<lparr>apiKey = Some ''tap-key'', vendor = v, now = 1700000000000\<rparr>"

definition postEvent :: "json \<Rightarrow> event" where
  "postEvent d = \<lparr>httpMethod = ''POST'', requestBody = Inr d\<rparr>"

definition createRequest :: "json \<Rightarrow> json" where
  "createRequest parent =
     JObj [(''mode'', JStr ''create_affiliate_only''), (''first_name'', JStr ''Alice''),
           (''last_name'', JStr ''Smith''), (''email'', JStr ''alice@example.com''),
           (''password'', JStr ''s3cret''), (''country'', JStr ''United Kingdom''),
           (''commission_type'', JStr ''bogus''), (''parent_id'', parent)]"

definition incompleteRequest :: json where
  "incompleteRequest =
     JObj [(''mode'', JStr ''create_affiliate_only''), (''first_name'', JStr ''Alice''),
           (''last_name'', JStr ''Smith''), (''email'', JStr ''  ''), (''password'', JNull)]"

definition finalizeRequest :: "json \<Rightarrow> json \<Rightarrow> json" where
  "finalizeRequest affiliate parent =
     JObj [(''mode'', JStr ''finalize_affiliate''), (''affiliate_id'', affiliate),
           (''program'', JStr ''USD''), (''company_type'', JStr ''vacation-rental''),
           (''metadata'', JObj [(''website'', JStr ''https://example.com'')]),
           (''parent_id'', parent)]"

definition updateRequest :: "(string \<times> json) list \<Rightarrow> json" where
  "updateRequest extra =
     JObj ([(''mode'', JStr ''update_custom_fields''), (''affiliate_id'', JStr ''alice-smith'')] @ extra)"


text \<open>
  A vendor whose catalog gives the commission field and the demo-call field one key, and a
  request with both fields.
\<close>

definition sharedKeyCatalog :: json where
  "sharedKeyCatalog =
     JArr [JObj [(''id'', JNum 12), (''title'', JStr ''Commission type''), (''key'', JStr ''x'')],
           JObj [(''id'', JNum 13), (''title'', JStr ''Free DEMO call?''), (''key'', JStr ''x'')]]"

fun sharedKeyVendor :: "(call \<times> fetch_result) list \<Rightarrow> call \<Rightarrow> fetch_result" where
  "sharedKeyVendor h GetCustomFields = reply 200 sharedKeyCatalog"
| "sharedKeyVendor h c = sampleVendor h c"

definition demoRequest :: "string \<Rightarrow> bool \<Rightarrow> json" where
  "demoRequest m wants =
     JObj [(''mode'', JStr m), (''affiliate_id'', JStr ''alice-smith''), (''program'', JStr ''USD''),
           (''first_name'', JStr ''Alice''), (''last_name'', JStr ''Smith''),
           (''email'', JStr ''alice@example.com''), (''password'', JStr ''s3cret''),
           (''commission_type'', JStr ''bogus''), (''wantsDemoCall'', JBool wants)]"


section \<open>A calculus of postconditions\<close>

lemma postI: "(\<And>w. \<exists>cs. trace (snd (m w)) = trace w @ cs \<and> Q (fst (m w)) cs) \<Longrightarrow> post m Q"
  by (simp add: post_def)

lemma postD: "post m Q \<Longrightarrow> \<exists>cs. trace (snd (m w)) = trace w @ cs \<and> Q (fst (m w)) cs"
  by (simp add: post_def)

lemma post_conseq: "post m Q' \<Longrightarrow> (\<And>r cs. Q' r cs \<Longrightarrow> Q r cs) \<Longrightarrow> post m Q"
  unfolding post_def by blast

lemma post_ret: "Q (Inr x) [] \<Longrightarrow> post (ret x) Q"
  by (simp add: post_def ret_def)

lemma post_liftE: "Q r [] \<Longrightarrow> post (liftE r) Q"
  by (simp add: post_def liftE_def)

lemma post_if: "(b \<Longrightarrow> post m1 Q) \<Longrightarrow> (\<not> b \<Longrightarrow> post m2 Q) \<Longrightarrow> post (if b then m1 else m2) Q"
  by simp

lemma post_fetch:
  "(\<And>m. Q (Inl (NetworkError m)) [(c, Rejected m)]) \<Longrightarrow>
   (\<And>v. Q (Inr v) [(c, Responded v)]) \<Longrightarrow> post (fetch en c) Q"
  by (auto simp: post_def fetch_def Let_def split: fetch_result.splits)

lemma post_bnd:
  assumes "post m (\<lambda>r cs. case r of Inl e \<Rightarrow> Q (Inl e) cs
                             | Inr x \<Rightarrow> post (f x) (\<lambda>r' cs'. Q r' (cs @ cs')))"
  shows "post (bnd m f) Q"
proof (rule postI)
  fix w
  obtain r w1 where mw: "m w = (r, w1)" by (cases "m w")
  from postD[OF assms, of w] mw obtain cs where
    cs: "trace w1 = trace w @ cs" and
    q: "case r of Inl e \<Rightarrow> Q (Inl e) cs | Inr x \<Rightarrow> post (f x) (\<lambda>r' cs'. Q r' (cs @ cs'))"
    by auto
  show "\<exists>cs. trace (snd (bnd m f w)) = trace w @ cs \<and> Q (fst (bnd m f w)) cs"
  proof (cases r)
    case (Inl e)
    with mw cs q show ?thesis by (auto simp: bnd_def)
  next
    case (Inr x)
    with q have "post (f x) (\<lambda>r' cs'. Q r' (cs @ cs'))" by simp
    from postD[OF this, of w1] obtain cs' where
      "trace (snd (f x w1)) = trace w1 @ cs'" "Q (fst (f x w1)) (cs @ cs')" by auto
    with Inr mw cs show ?thesis by (auto simp: bnd_def)
  qed
qed

lemma post_tryCatch:
  assumes "post m (\<lambda>r cs. case r of Inl e \<Rightarrow> post (h e) (\<lambda>r' cs'. Q r' (cs @ cs'))
                             | Inr x \<Rightarrow> Q (Inr x) cs)"
  shows "post (tryCatch m h) Q"
proof (rule postI)
  fix w
  obtain r w1 where mw: "m w = (r, w1)" by (cases "m w")
  from postD[OF assms, of w] mw obtain cs where
    cs: "trace w1 = trace w @ cs" and
    q: "case r of Inl e \<Rightarrow> post (h e) (\<lambda>r' cs'. Q r' (cs @ cs')) | Inr x \<Rightarrow> Q (Inr x) cs"
    by auto
  show "\<exists>cs. trace (snd (tryCatch m h w)) = trace w @ cs \<and> Q (fst (tryCatch m h w)) cs"
  proof (cases r)
    case (Inr x)
    with mw cs q show ?thesis by (auto simp: tryCatch_def)
  next
    case (Inl e)
    with q have "post (h e) (\<lambda>r' cs'. Q r' (cs @ cs'))" by simp
    from postD[OF this, of w1] obtain cs' where
      "trace (snd (h e w1)) = trace w1 @ cs'" "Q (fst (h e w1)) (cs @ cs')" by auto
    with Inl mw cs show ?thesis by (auto simp: tryCatch_def)
  qed
qed

lemma post_bnd_liftE:
  "(\<And>e. s = Inl e \<Longrightarrow> Q (Inl e) []) \<Longrightarrow> (\<And>x. s = Inr x \<Longrightarrow> post (f x) Q) \<Longrightarrow>
   post (bnd (liftE s) f) Q"
  by (rule post_bnd, rule post_liftE) (auto split: sum.splits)

lemma post_bnd_fetch:
  "(\<And>m. Q (Inl (NetworkError m)) [(c, Rejected m)]) \<Longrightarrow>
   (\<And>v. post (f v) (\<lambda>r cs. Q r ((c, Responded v) # cs))) \<Longrightarrow>
   post (bnd (fetch en c) f) Q"
  by (rule post_bnd, rule post_fetch) auto

lemma post_bnd_sum:
  "post m S \<Longrightarrow> (\<And>e cs. S (Inl e) cs \<Longrightarrow> Q (Inl e) cs) \<Longrightarrow>
   (\<And>x cs. S (Inr x) cs \<Longrightarrow> post (f x) (\<lambda>r' cs'. Q r' (cs @ cs'))) \<Longrightarrow> post (bnd m f) Q"
  by (rule post_bnd, erule post_conseq) (auto split: sum.splits)

text \<open>The rules for a run from a given state, whose first step may depend on it.\<close>

lemma postFrom_ret: "Q (Inr x) [] \<Longrightarrow> postFrom w (ret x) Q"
  by (simp add: postFrom_def ret_def)

lemma postFrom_if:
  "(b \<Longrightarrow> postFrom w m1 Q) \<Longrightarrow> (\<not> b \<Longrightarrow> postFrom w m2 Q) \<Longrightarrow> postFrom w (if b then m1 else m2) Q"
  by simp

lemma postFrom_bnd_liftE:
  "(\<And>e. s = Inl e \<Longrightarrow> Q (Inl e) []) \<Longrightarrow> (\<And>x. s = Inr x \<Longrightarrow> postFrom w (f x) Q) \<Longrightarrow>
   postFrom w (bnd (liftE s) f) Q"
  by (cases s) (auto simp: postFrom_def bnd_def liftE_def)

lemma postFrom_bnd_sum:
  assumes "postFrom w m S"
    and "\<And>e cs. S (Inl e) cs \<Longrightarrow> Q (Inl e) cs"
    and "\<And>x cs. S (Inr x) cs \<Longrightarrow> post (f x) (\<lambda>r' cs'. Q r' (cs @ cs'))"
  shows "postFrom w (bnd m f) Q"
proof -
  obtain r w1 where mw: "m w = (r, w1)" by (cases "m w")
  from assms(1) mw obtain cs where cs: "trace w1 = trace w @ cs" and s: "S r cs"
    by (auto simp: postFrom_def)
  show ?thesis
  proof (cases r)
    case (Inl e)
    with mw cs s assms(2) show ?thesis by (auto simp: postFrom_def bnd_def)
  next
    case (Inr x)
    with s assms(3) have "post (f x) (\<lambda>r' cs'. Q r' (cs @ cs'))" by simp
    from postD[OF this, of w1] obtain cs' where
      "trace (snd (f x w1)) = trace w1 @ cs'" "Q (fst (f x w1)) (cs @ cs')" by auto
    with Inr mw cs show ?thesis by (auto simp: postFrom_def bnd_def)
  qed
qed

section \<open>The steps of a request\<close>

lemma getCustomFieldKeys_post:
  "post (getCustomFieldKeys en)
     (\<lambda>r cs. (\<exists>fm. r = Inr fm) \<and> (cs = [] \<or> (\<exists>x. cs = [(GetCustomFields, x)])))"
proof (rule postI)
  fix w
  let ?Q = "\<lambda>r cs. (\<exists>fm. r = Inr (fm :: fieldMap option)) \<and>
                    (cs = [] \<or> (\<exists>x. cs = [(GetCustomFields, x)]))"
  let ?m = "tryCatch
              (bnd (fetch en GetCustomFields) (\<lambda>response.
                 if \<not> ok response then ret None
                 else bnd (liftE (responseJson response)) (\<lambda>parsedBody.
                      bnd (liftE (buildFieldMap parsedBody)) (\<lambda>fm.
                      bnd (storeCache en fm) (\<lambda>u. ret (Some fm))))))
              (\<lambda>error. ret None)"
  have sc: "\<And>fm Q. Q (Inr ()) [] \<Longrightarrow> post (storeCache en fm) Q"
    by (simp add: post_def storeCache_def)
  have "post ?m ?Q"
    apply (rule post_tryCatch)
    apply (rule post_bnd_fetch)
     apply (simp add: post_ret)
    apply (rule post_if)
     apply (simp add: post_ret)
    apply (rule post_bnd_liftE)
     apply (simp add: post_ret)
    apply (rule post_bnd_liftE)
     apply (simp add: post_ret)
    apply (rule post_bnd)
    apply (rule sc)
    apply (simp add: post_ret)
    done
  from postD[OF this, of w]
  show "\<exists>cs. trace (snd (getCustomFieldKeys en w)) = trace w @ cs \<and>
             ?Q (fst (getCustomFieldKeys en w)) cs"
    by (cases "cacheValid en w") (auto simp: getCustomFieldKeys_def)
qed

lemma getCustomFieldKeys_from:
  "postFrom w (getCustomFieldKeys en)
     (\<lambda>r cs. r = fst (getCustomFieldKeys en w) \<and> (cs = [] \<or> (\<exists>x. cs = [(GetCustomFields, x)])))"
  using postD[OF getCustomFieldKeys_post, of en w] by (auto simp: postFrom_def)








lemma updateAffiliate_post:
  "post (updateAffiliate en aid p)
     (\<lambda>r cs. r = Inr () \<and> (cs = [] \<or> (\<exists>t x. cs = [(PatchAffiliate t (JObj p), x)])))"
  unfolding updateAffiliate_def
  by (auto intro!: post_if post_ret post_tryCatch post_bnd_liftE post_bnd_fetch)

lemma setWebsite_post:
  "post (setWebsite en aid md)
     (\<lambda>r cs. r = Inr () \<and> (cs = [] \<or> (\<exists>t b x. cs = [(PutWebsite t b, x)])))"
  unfolding setWebsite_def
  by (auto intro!: post_if post_ret post_tryCatch post_bnd_liftE post_bnd_fetch split: option.splits)

lemma setParent_post:
  "post (setParent en aid raw)
     (\<lambda>r cs. (cs = [] \<and> (case r of Inl e \<Rightarrow> validateParentId raw = Inl e | Inr u \<Rightarrow> True)) \<or>
             (r = Inr () \<and>
              (\<exists>p t x. validateParentId raw = Inr (Some p) \<and> toStringU aid = Inr t \<and>
                        cs = [(PostParent t (JObj [(''via'', JStr p)]), x)])))"
  unfolding setParent_def
  by (auto intro!: post_if post_ret post_tryCatch post_bnd_liftE post_bnd_fetch split: option.splits)

lemma setParent_eq:
  "setParent en aid raw w =
     (case validateParentId raw of
        Inl e \<Rightarrow> (Inl e, w)
      | Inr None \<Rightarrow> (Inr (), w)
      | Inr (Some p) \<Rightarrow>
          if p = [] then (Inr (), w)
          else (case toStringU aid of
                  Inl e \<Rightarrow> (Inr (), w)
                | Inr t \<Rightarrow>
                    (Inr (), w\<lparr>trace := trace w @
                       [(PostParent t (JObj [(''via'', JStr p)]),
                         vendor en (trace w) (PostParent t (JObj [(''via'', JStr p)])))]\<rparr>)))"
  by (simp add: setParent_def bnd_def liftE_def tryCatch_def fetch_def ret_def Let_def
           split: sum.splits option.splits fetch_result.splits)

lemma propOf_Some_not_null: "propOf d k = Some v \<Longrightarrow> d \<noteq> JNull"
  by (cases d) auto

lemma falsy_cases:
  "\<not> truthy x \<Longrightarrow>
   x = None \<or> x = Some JNull \<or> x = Some (JBool False) \<or> x = Some (JNum 0) \<or> x = Some (JStr [])"
  by (cases x rule: truthy.cases) auto

lemma lookupOr_falsy: "\<not> truthy x \<Longrightarrow> lookupOr PROGRAM_ID_MAP x = Inr (Plain x)"
proof -
  have "lookupOr PROGRAM_ID_MAP None = Inr (Plain None)" by code_simp
  moreover have "lookupOr PROGRAM_ID_MAP (Some JNull) = Inr (Plain (Some JNull))" by code_simp
  moreover have "lookupOr PROGRAM_ID_MAP (Some (JBool False)) = Inr (Plain (Some (JBool False)))"
    by code_simp
  moreover have "lookupOr PROGRAM_ID_MAP (Some (JNum 0)) = Inr (Plain (Some (JNum 0)))" by code_simp
  moreover have "lookupOr PROGRAM_ID_MAP (Some (JStr [])) = Inr (Plain (Some (JStr [])))" by code_simp
  moreover assume "\<not> truthy x"
  ultimately show ?thesis using falsy_cases[of x] by auto
qed

lemma lookupOr_truthy:
  "truthy x \<Longrightarrow> toStringU x = Inr t \<Longrightarrow> \<exists>r. lookupOr PROGRAM_ID_MAP x = Inr r \<and> truthyRef r"
  by (auto simp: lookupOr_def split: option.splits)

lemma handler_post_body:
  "httpMethod ev = ''POST'' \<Longrightarrow> keySet (apiKey en) \<Longrightarrow> requestBody ev = Inr d \<Longrightarrow> d \<noteq> JNull \<Longrightarrow>
   handlerBody en ev =
     (if modeOf d = Some (JStr ''create_affiliate_only'') then createAffiliateOnly en d
      else if modeOf d = Some (JStr ''finalize_affiliate'') then finalizeAffiliate en d
      else if modeOf d = Some (JStr ''update_custom_fields'') then updateCustomFields en d
      else legacyMode en d)"
  by (rule ext) (simp add: handlerBody_def bnd_def liftE_def getProp_def modeOf_def Let_def)

lemma handler_post:
  "httpMethod ev = ''POST'' \<Longrightarrow>
   handler en ev w =
     (case handlerBody en ev w of
        (Inl error, w') \<Rightarrow>
          (respond 500 [(''error'', JStr ''Internal server error''),
                        (''message'', JStr (message error))], w')
      | (Inr r, w') \<Rightarrow> (r, w'))"
  by (simp add: handler_def)


section \<open>The parent link is a separate, best-effort call\<close>









section \<open>Method, credential and required fields\<close>

text \<open>
  C1. The handler compares the method with \<^verbatim>\<open>POST\<close> first, so a request whose
  method is \<^verbatim>\<open>OPTIONS\<close> gets the method-not-allowed response (405) like every
  other method that is not \<^verbatim>\<open>POST\<close>; the branch that answers the preflight with
  200 and an empty body is never reached.
\<close>

theorem options_request_is_not_allowed:
  "handler en \<lparr>httpMethod = ''OPTIONS'', requestBody = b\<rparr> w =
     (respond 405 [(''error'', JStr ''Method not allowed'')], w)
   \<and> (m \<noteq> ''POST'' \<longrightarrow>
        handler en \<lparr>httpMethod = m, requestBody = b\<rparr> w =
          (respond 405 [(''error'', JStr ''Method not allowed'')], w))"
  by (simp add: handler_def)

theorem options_request_is_not_allowed_witness:
  "''GET'' \<noteq> ''POST''
   \<and> statusCode (fst (handler (sampleEnv sampleVendor)
                          \<lparr>httpMethod = ''OPTIONS'', requestBody = Inl ''Unexpected end of JSON input''\<rparr>
                          coldWorld)) = 405
   \<and> statusCode (fst (handler (sampleEnv sampleVendor)
                          \<lparr>httpMethod = ''GET'', requestBody = Inl ''Unexpected end of JSON input''\<rparr>
                          coldWorld)) = 405"
  using options_request_is_not_allowed[of "sampleEnv sampleVendor" "Inl ''Unexpected end of JSON input''"
          coldWorld "''GET''"]
  by (simp add: respond_def)

text \<open>
  C2. For every POST request, whatever its body and mode, when the environment variable
  \<^verbatim>\<open>TAPFILIATE_API_KEY\<close> is absent the handler returns the 500
  server-configuration response and leaves the state as it was: no call is issued.
\<close>

theorem missing_api_key_short_circuits:
  assumes "httpMethod ev = ''POST''" and "apiKey en = None"
  shows "handler en ev w =
           (respond 500 [(''error'', JStr ''Server configuration error: API key not set.'')], w)"
  using assms by (simp add: handler_def handlerBody_def keySet_def ret_def)

theorem missing_api_key_short_circuits_witness:
  "handler \<lparr>apiKey = None, vendor = sampleVendor, now = 1700000000000\<rparr>
           (postEvent (finalizeRequest (JStr ''alice-smith'') JNull)) coldWorld =
     (respond 500 [(''error'', JStr ''Server configuration error: API key not set.'')], coldWorld)"
  using missing_api_key_short_circuits[of "postEvent (finalizeRequest (JStr ''alice-smith'') JNull)"
          "\<lparr>apiKey = None, vendor = sampleVendor, now = 1700000000000\<rparr>" coldWorld]
  by (simp add: postEvent_def)

text \<open>
  C3, as the code has it. With the credential set and a body that parses to a value other
  than \<^verbatim>\<open>null\<close>: in the create-only mode, and in the legacy mode once the program
  resolves, a request that misses required fields (undefined, \<^verbatim>\<open>null\<close>, or a string
  that is empty after trimming) gets 400 with \<^verbatim>\<open>Missing required fields:\<close> followed
  by exactly the missing names; in the finalize and the update mode a falsy
  \<^verbatim>\<open>affiliate_id\<close> gets 400 with a fixed message that names it; in the finalize and
  the legacy mode a falsy \<^verbatim>\<open>program\<close> gets 400 with a fixed message. In all these
  cases the state is unchanged: no call is issued.
\<close>

theorem missing_fields_are_rejected:
  assumes post: "httpMethod ev = ''POST''" and key: "keySet (apiKey en)"
    and body: "requestBody ev = Inr d" and obj: "d \<noteq> JNull"
  shows
    "(modeOf d = Some (JStr ''create_affiliate_only'') \<and>
        filter (isMissing d) [''first_name'', ''last_name'', ''email'', ''password''] \<noteq> [] \<longrightarrow>
      handler en ev w =
        (badRequest (''Missing required fields: '' @ joinWith '', ''
           (filter (isMissing d) [''first_name'', ''last_name'', ''email'', ''password''])), w))
   \<and> (modeOf d = Some (JStr ''finalize_affiliate'') \<and> \<not> truthy (propOf d ''affiliate_id'') \<longrightarrow>
      handler en ev w = (badRequest ''Missing affiliate_id for finalize_affiliate mode'', w))
   \<and> (modeOf d = Some (JStr ''finalize_affiliate'') \<and> truthy (propOf d ''affiliate_id'') \<and>
        \<not> truthy (propOf d ''program'') \<longrightarrow>
      handler en ev w = (badRequest ''Missing or invalid program selection'', w))
   \<and> (modeOf d = Some (JStr ''update_custom_fields'') \<and> \<not> truthy (propOf d ''affiliate_id'') \<longrightarrow>
      handler en ev w = (badRequest ''Missing affiliate_id for update_custom_fields mode'', w))
   \<and> (modeOf d \<notin> set namedModes \<and> \<not> truthy (propOf d ''program'') \<longrightarrow>
      handler en ev w = (badRequest ''Missing or invalid program selection'', w))
   \<and> (modeOf d \<notin> set namedModes \<and> truthy (propOf d ''program'') \<and>
        toStringU (propOf d ''program'') = Inr t \<and>
        filter (isMissing d) [''first_name'', ''last_name'', ''email'', ''password'',
                              ''city'', ''country'', ''company''] \<noteq> [] \<longrightarrow>
      handler en ev w =
        (badRequest (''Missing required fields: '' @ joinWith '', ''
           (filter (isMissing d) [''first_name'', ''last_name'', ''email'', ''password'',
                                  ''city'', ''country'', ''company''])), w))"
proof -
  note hb = handler_post_body[OF post key body obj]
  note h = handler_post[OF post]
  have a: "modeOf d = Some (JStr ''create_affiliate_only'') \<Longrightarrow>
        filter (isMissing d) [''first_name'', ''last_name'', ''email'', ''password''] \<noteq> [] \<Longrightarrow>
      handler en ev w =
        (badRequest (''Missing required fields: '' @ joinWith '', ''
           (filter (isMissing d) [''first_name'', ''last_name'', ''email'', ''password''])), w)"
    unfolding h hb by (simp add: createAffiliateOnly_def Let_def ret_def del: filter.simps)
  have b: "modeOf d = Some (JStr ''finalize_affiliate'') \<Longrightarrow> \<not> truthy (propOf d ''affiliate_id'') \<Longrightarrow>
      handler en ev w = (badRequest ''Missing affiliate_id for finalize_affiliate mode'', w)"
    unfolding h hb by (simp add: finalizeAffiliate_def Let_def ret_def)
  have c: "modeOf d = Some (JStr ''finalize_affiliate'') \<Longrightarrow> truthy (propOf d ''affiliate_id'') \<Longrightarrow>
        \<not> truthy (propOf d ''program'') \<Longrightarrow>
      handler en ev w = (badRequest ''Missing or invalid program selection'', w)"
    unfolding h hb
    by (simp add: finalizeAffiliate_def Let_def ret_def bnd_def liftE_def lookupOr_falsy)
  have d': "modeOf d = Some (JStr ''update_custom_fields'') \<Longrightarrow> \<not> truthy (propOf d ''affiliate_id'') \<Longrightarrow>
      handler en ev w = (badRequest ''Missing affiliate_id for update_custom_fields mode'', w)"
    unfolding h hb by (simp add: updateCustomFields_def Let_def ret_def)
  have e: "modeOf d \<notin> set namedModes \<Longrightarrow> \<not> truthy (propOf d ''program'') \<Longrightarrow>
      handler en ev w = (badRequest ''Missing or invalid program selection'', w)"
    unfolding h hb
    by (simp add: legacyMode_def Let_def ret_def bnd_def liftE_def lookupOr_falsy namedModes_def)
  have f: "modeOf d \<notin> set namedModes \<Longrightarrow> truthy (propOf d ''program'') \<Longrightarrow>
        toStringU (propOf d ''program'') = Inr t \<Longrightarrow>
        filter (isMissing d) [''first_name'', ''last_name'', ''email'', ''password'',
                              ''city'', ''country'', ''company''] \<noteq> [] \<Longrightarrow>
      handler en ev w =
        (badRequest (''Missing required fields: '' @ joinWith '', ''
           (filter (isMissing d) [''first_name'', ''last_name'', ''email'', ''password'',
                                  ''city'', ''country'', ''company''])), w)"
    using lookupOr_truthy[of "propOf d ''program''" t]
    unfolding h hb
    by (auto simp add: legacyMode_def Let_def ret_def bnd_def liftE_def namedModes_def
             simp del: filter.simps)
  from a b c d' e f show ?thesis by blast
qed

text \<open>A create-only request with a blank email and a null password.\<close>

theorem missing_fields_are_rejected_witness:
  "handler (sampleEnv sampleVendor) (postEvent incompleteRequest) coldWorld =
     (badRequest ''Missing required fields: email, password'', coldWorld)"
proof -
  have m: "modeOf incompleteRequest = Some (JStr ''create_affiliate_only'')" by code_simp
  have f: "filter (isMissing incompleteRequest) [''first_name'', ''last_name'', ''email'', ''password'']
             = [''email'', ''password'']" by code_simp
  have p: "httpMethod (postEvent incompleteRequest) = ''POST''" by (simp add: postEvent_def)
  have k: "keySet (apiKey (sampleEnv sampleVendor))" by (simp add: sampleEnv_def keySet_def)
  have b: "requestBody (postEvent incompleteRequest) = Inr incompleteRequest"
    by (simp add: postEvent_def)
  have n: "incompleteRequest \<noteq> JNull" by (simp add: incompleteRequest_def)
  from missing_fields_are_rejected[OF p k b n, of coldWorld] m f show ?thesis by simp
qed

text \<open>
  The claim as stated fails in the finalize mode: an \<^verbatim>\<open>affiliate_id\<close> of two blanks
  is empty after trimming, yet it is truthy, the request is served (200) and calls are
  issued.
\<close>

theorem blank_affiliate_id_counterexample:
  "isMissing (finalizeRequest (JStr ''  '') JNull) ''affiliate_id''
   \<and> statusCode (fst (handler (sampleEnv sampleVendor)
                          (postEvent (finalizeRequest (JStr ''  '') JNull)) coldWorld)) = 200
   \<and> trace (snd (handler (sampleEnv sampleVendor)
                     (postEvent (finalizeRequest (JStr ''  '') JNull)) coldWorld)) \<noteq> []"
  by code_simp


section \<open>Country codes\<close>

lemma find_unrecognized:
  "\<not> recognized s \<Longrightarrow>
   find (\<lambda>kc. toLowerCase (fst kc) = toLowerCase (trim s)) countryMap = None"
  by (auto simp: recognized_def find_None_iff list_ex_iff)

text \<open>
  C5, as the code has it. \<^verbatim>\<open>United Kingdom\<close> and \<^verbatim>\<open>gb\<close> resolve to
  \<^verbatim>\<open>GB\<close>, so does an absent country, and so does every string that is not two
  characters long and matches no name of the table.
\<close>

theorem country_resolution:
  "getCountryISOCode (Some (JStr ''United Kingdom'')) = Inr ''GB''
   \<and> getCountryISOCode (Some (JStr ''gb'')) = Inr ''GB''
   \<and> getCountryISOCode None = Inr ''GB''
   \<and> (length s \<noteq> 2 \<and> \<not> recognized s \<longrightarrow> getCountryISOCode (Some (JStr s)) = Inr ''GB'')"
proof -
  have a: "getCountryISOCode (Some (JStr ''United Kingdom'')) = Inr ''GB''" by code_simp
  have b: "getCountryISOCode (Some (JStr ''gb'')) = Inr ''GB''" by code_simp
  have c: "getCountryISOCode None = Inr ''GB''" by (simp add: getCountryISOCode_def)
  have d: "length s \<noteq> 2 \<Longrightarrow> \<not> recognized s \<Longrightarrow> getCountryISOCode (Some (JStr s)) = Inr ''GB''"
    by (simp add: getCountryISOCode_def find_unrecognized)
  from a b c d show ?thesis by blast
qed

theorem country_resolution_witness:
  "length ''Atlantis'' \<noteq> 2 \<and> \<not> recognized ''Atlantis''
   \<and> getCountryISOCode (Some (JStr ''Atlantis'')) = Inr ''GB''"
proof -
  have u: "\<not> recognized ''Atlantis''" by code_simp
  with country_resolution[of "''Atlantis''"] show ?thesis by simp
qed

text \<open>
  The claim as stated fails on two-character strings, which are returned in upper case
  before the table is read: the unrecognized \<^verbatim>\<open>zz\<close> gives \<^verbatim>\<open>ZZ\<close>, and
  \<^verbatim>\<open>uk\<close> gives \<^verbatim>\<open>UK\<close>.
\<close>

theorem two_letter_country_counterexample:
  "\<not> recognized ''zz'' \<and> getCountryISOCode (Some (JStr ''zz'')) = Inr ''ZZ''
   \<and> getCountryISOCode (Some (JStr ''uk'')) = Inr ''UK''"
  by code_simp

section \<open>The parent id\<close>

lemma isDigit_digitChar: "d < 10 \<Longrightarrow> isDigit (digitChar d)"
  by (simp add: isDigit_def digitChar_def)

lemma showNat_digits: "list_all isDigit (showNat n)"
proof (induction n rule: showNat.induct)
  case (1 n)
  show ?case
  proof (cases "n < 10")
    case True
    then show ?thesis by (subst showNat.simps) (simp add: isDigit_digitChar)
  next
    case False
    with 1 show ?thesis by (subst showNat.simps) (simp add: isDigit_digitChar)
  qed
qed

lemma showNat_nonempty: "showNat n \<noteq> []"
  by (subst showNat.simps) simp

lemma digit_not_space: "isDigit c \<Longrightarrow> \<not> isSpace c"
  by (auto simp: isDigit_def isSpace_def)

lemma dropWhile_digits: "s \<noteq> [] \<Longrightarrow> list_all isDigit s \<Longrightarrow> dropWhile isSpace s = s"
  by (cases s) (auto simp: digit_not_space)

lemma trim_digits: "s \<noteq> [] \<Longrightarrow> list_all isDigit s \<Longrightarrow> trim s = s"
  using dropWhile_digits[of s] dropWhile_digits[of "rev s"]
  by (simp add: trim_def list_all_iff)

lemma null_not_digits: "\<not> list_all isDigit ''null''"
  by code_simp

lemma validateParentId_text:
  "validateParentId (Some (JStr s)) =
     Inr (if trim s \<noteq> [] \<and> list_all isDigit (trim s) then Some (trim s) else None)"
proof (cases "s = []")
  case True
  then show ?thesis by (simp add: validateParentId_def trim_def)
next
  case False
  then show ?thesis using null_not_digits by (auto simp: validateParentId_def)
qed

lemma validateParentId_other:
  assumes "truthy (Some v)" "toString v = Inr t"
  shows "validateParentId (Some v) =
           Inr (if trim t \<noteq> [] \<and> list_all isDigit (trim t) then Some (trim t) else None)"
proof (cases v)
  case (JStr s)
  with assms show ?thesis using validateParentId_text[of s] by simp
qed (use assms null_not_digits in \<open>auto simp: validateParentId_def\<close>)

text \<open>
  C10. A parent id that is a positive JSON number (an integer a double holds exactly) is
  not a string, but \<^verbatim>\<open>validateParentId\<close> converts it with \<^verbatim>\<open>String\<close> and
  accepts the decimal numeral; the parent-link step then issues the call with that
  numeral as \<^verbatim>\<open>via\<close>.
\<close>

theorem numeric_parent_id_is_accepted:
  assumes "0 < n" and "n \<le> 9007199254740991"
  shows "validateParentId (Some (JNum n)) = Inr (Some (showInt n))
     \<and> (toStringU aid = Inr t \<longrightarrow>
          setParent en aid (Some (JNum n)) w =
            (Inr (), w\<lparr>trace := trace w @
               [(PostParent t (JObj [(''via'', JStr (showInt n))]),
                 vendor en (trace w) (PostParent t (JObj [(''via'', JStr (showInt n))])))]\<rparr>))"
proof -
  from assms(1) have s: "showInt n = showNat (nat n)" by (simp add: showInt_def)
  have v: "validateParentId (Some (JNum n)) = Inr (Some (showInt n))"
    using assms(1) validateParentId_other[of "JNum n" "showInt n"]
    by (simp add: s trim_digits showNat_digits showNat_nonempty)
  show ?thesis
    by (simp add: v setParent_eq s showNat_nonempty)
qed

theorem numeric_parent_id_is_accepted_witness:
  "(0::int) < 42 \<and> (42::int) \<le> 9007199254740991
   \<and> validateParentId (Some (JNum 42)) = Inr (Some ''42'')
   \<and> trace (snd (setParent (sampleEnv sampleVendor) (Some (JStr ''alice-smith'')) (Some (JNum 42))
                    coldWorld))
       = [(PostParent ''alice-smith'' (JObj [(''via'', JStr ''42'')]),
           reply 404 (JObj [(''message'', JStr ''Affiliate not found'')]))]"
proof -
  have n: "showInt 42 = ''42''" by code_simp
  have t: "toStringU (Some (JStr ''alice-smith'')) = Inr ''alice-smith''"
    by (simp add: toStringU_def)
  from numeric_parent_id_is_accepted[of 42 "Some (JStr ''alice-smith'')" "''alice-smith''"
         "sampleEnv sampleVendor" coldWorld] n t
  show ?thesis by (simp add: coldWorld_def sampleEnv_def)
qed


section \<open>The commission type\<close>

lemma commissionTypeValue_valid: "commissionTypeValue v \<in> set (map JStr validCommissionTypes)"
  by (auto simp: commissionTypeValue_def validCommissionTypes_def split: option.splits json.splits)

lemma commissionTypeValue_default:
  "v \<notin> set (map (\<lambda>s. Some (JStr s)) validCommissionTypes) \<Longrightarrow>
   commissionTypeValue v = JStr ''I want 10% commission''"
  by (auto simp: commissionTypeValue_def validCommissionTypes_def split: option.splits json.splits)

lemma addCommissionType_sets:
  "addCommissionType d fm cf = Inr cf' \<Longrightarrow>
   cf' = cf \<or> (\<exists>k. cf' = setField k (Some (commissionTypeValue (propOf d ''commission_type''))) cf)"
  by (auto simp: addCommissionType_def Let_def split: if_splits sum.splits)

lemma updateFields_shape:
  assumes "updateFields d fm = Inr cf" "cf \<noteq> []"
  shows "\<exists>k. stringifyFields cf = JObj [(k, commissionTypeValue (propOf d ''commission_type''))]"
proof -
  from assms(1) have "addCommissionType d fm [] = Inr cf"
    by (auto simp: updateFields_def split: sum.splits)
  from addCommissionType_sets[OF this] assms(2) obtain k where
    "cf = setField k (Some (commissionTypeValue (propOf d ''commission_type''))) []" by auto
  with assms(2) have "cf = [(k, Some (commissionTypeValue (propOf d ''commission_type'')))]"
    by (auto simp: setField_def split: if_splits)
  then show ?thesis by (simp add: stringifyFields_def map_filter_simps)
qed

lemma carries_updateFields:
  assumes "(case fmo of None \<Rightarrow> Inr [] | Some fm \<Rightarrow> updateFields d fm) = Inr cf" "cf \<noteq> []"
  shows "carriesCommission (JObj [(''custom_fields'', stringifyFields cf)])"
proof -
  from assms obtain fm where "updateFields d fm = Inr cf" by (cases fmo) auto
  from updateFields_shape[OF this assms(2)] obtain k where
    "stringifyFields cf = JObj [(k, commissionTypeValue (propOf d ''commission_type''))]" by blast
  then show ?thesis using commissionTypeValue_valid[of "propOf d ''commission_type''"]
    by (simp add: carriesCommission_def)
qed

lemma updateCustomFields_commission:
  "post (updateCustomFields en d) (\<lambda>r cs. list_all (\<lambda>x. commissionOnly (fst x)) cs)"
  unfolding updateCustomFields_def Let_def
  apply (rule post_if)
   apply (simp add: post_ret)
  apply (rule post_bnd_sum[OF getCustomFieldKeys_post])
   apply auto[1]
  apply (rule post_bnd_liftE)
   apply auto[1]
  apply (rule post_if)
   apply (rule post_bnd_liftE)
    apply auto[1]
   apply (rule post_tryCatch)
   apply (rule post_bnd_fetch)
    apply (auto simp: carries_updateFields intro!: post_ret)[1]
   apply (auto simp: carries_updateFields intro!: post_ret post_if)[1]
  apply (auto intro!: post_ret)
  done

text \<open>The custom field the commission block writes, followed to the calls of the four modes.\<close>

lemma map_of_assign: "map_of (assign k v xs) k' = (if k' = k then Some v else map_of xs k')"
  by (induction xs) auto

lemma map_of_setField:
  "map_of (setField k v cf) k' = (if k' = k \<and> k \<noteq> ''__proto__'' then Some v else map_of cf k')"
  by (simp add: setField_def map_of_assign)

lemma stringifyFields_field:
  "map_of cf k = Some (Some v) \<Longrightarrow> propOf (stringifyFields cf) k = Some v"
  by (induction cf) (auto simp: stringifyFields_def map_filter_simps split: option.splits if_splits)

lemma addCommissionType_field:
  "commissionWritten d fm k \<Longrightarrow> addCommissionType d fm cf = Inr cf' \<Longrightarrow>
   map_of cf' k = Some (Some (commissionTypeValue (propOf d ''commission_type'')))"
  by (auto simp: commissionWritten_def commissionFieldKey_def addCommissionType_def Let_def map_of_setField)

lemma addDemoCall_field:
  "addDemoCall d fm cf = Inr cf' \<Longrightarrow> map_of cf k = Some (Some v) \<Longrightarrow> k \<noteq> ''__proto__'' \<Longrightarrow>
   map_of cf' k = Some (Some (if demoCallWrites d fm k then demoCallValue d else v))"
  by (auto simp: addDemoCall_def demoCallWrites_def demoFieldKey_def demoCallValue_def Let_def
                 map_of_setField split: if_splits sum.splits)

lemma creationFields_field:
  assumes "commissionWritten d fm k" "creationFields d fm = Inr cf"
  shows "map_of cf k = Some (Some (sentValue True d fm k))"
proof -
  from assms(2) obtain cf1 cf2 where
    "addCommissionType d fm cf1 = Inr cf2" and b: "addDemoCall d fm cf2 = Inr cf"
    by (auto simp: creationFields_def split: sum.splits)
  from addCommissionType_field[OF assms(1) this(1)]
  have "map_of cf2 k = Some (Some (commissionTypeValue (propOf d ''commission_type'')))" .
  from addDemoCall_field[OF b this] assms(1) show ?thesis
    by (simp add: commissionWritten_def sentValue_def)
qed

lemma finalizeFields_field:
  assumes "commissionWritten d fm k" "finalizeFields d fm = Inr cf"
  shows "map_of cf k = Some (Some (sentValue True d fm k))"
proof -
  from assms(2) obtain cf2 where
    "addCommissionType d fm [] = Inr cf2" and b: "addDemoCall d fm cf2 = Inr cf"
    by (auto simp: finalizeFields_def split: sum.splits)
  from addCommissionType_field[OF assms(1) this(1)]
  have "map_of cf2 k = Some (Some (commissionTypeValue (propOf d ''commission_type'')))" .
  from addDemoCall_field[OF b this] assms(1) show ?thesis
    by (simp add: commissionWritten_def sentValue_def)
qed

lemma updateFields_field:
  assumes "commissionWritten d fm k" "updateFields d fm = Inr cf"
  shows "map_of cf k = Some (Some (sentValue False d fm k))"
proof -
  from assms(2) have "addCommissionType d fm [] = Inr cf"
    by (auto simp: updateFields_def split: sum.splits)
  from addCommissionType_field[OF assms(1) this] show ?thesis by (simp add: sentValue_def)
qed

lemma customField_assign:
  "customField (JObj (assign ''custom_fields'' s p)) k = propOf s k"
  by (simp add: customField_def map_of_assign)

lemma customField_finalize:
  "cf \<noteq> [] \<Longrightarrow> customField (JObj (finalizeUpdatePayload d cf)) k = propOf (stringifyFields cf) k"
  by (simp add: customField_def finalizeUpdatePayload_def Let_def map_add_def)

lemma customField_update:
  "customField (JObj [(''custom_fields'', s)]) k = propOf s k"
  by (simp add: customField_def)

lemma field_nonempty: "map_of cf k = Some v \<Longrightarrow> cf \<noteq> []"
  by auto

lemma creationPayload_from:
  assumes g: "fst (getCustomFieldKeys en w) = Inr (Some fm)" and c: "commissionWritten d fm k"
  shows "postFrom w (creationPayload en d)
     (\<lambda>r cs. (cs = [] \<or> (\<exists>x. cs = [(GetCustomFields, x)])) \<and>
             (case r of Inl e \<Rightarrow> True
              | Inr p \<Rightarrow> customField (JObj p) k = Some (sentValue True d fm k)))"
  unfolding creationPayload_def
  apply (rule postFrom_bnd_liftE)
   apply simp
  apply (rule postFrom_bnd_sum[OF getCustomFieldKeys_from])
   apply simp
  apply (simp add: g)
  apply (rule post_bnd_liftE)
   apply auto[1]
  apply (rule post_ret)
  apply (frule creationFields_field[OF c])
  apply (frule field_nonempty)
  apply (auto simp: customField_assign stringifyFields_field)
  done

lemma createAffiliateOnly_commission:
  assumes g: "fst (getCustomFieldKeys en w) = Inr (Some fm)" and c: "commissionWritten d fm k"
  shows "postFrom w (createAffiliateOnly en d)
           (\<lambda>r cs. list_all (\<lambda>x. carriesField k (sentValue True d fm k) (fst x)) cs)"
  unfolding createAffiliateOnly_def Let_def
  apply (rule postFrom_if)
   apply (simp add: postFrom_ret)
  apply (rule postFrom_bnd_sum[OF creationPayload_from[OF g c]])
   apply auto[1]
  apply (rule post_bnd_fetch)
   apply auto[1]
  apply (rule post_if)
   apply (auto intro!: post_ret)[1]
  apply (rule post_bnd_liftE)
   apply auto[1]
  apply (rule post_if)
   apply (auto intro!: post_ret)[1]
  apply (rule post_bnd_sum[OF setParent_post])
   apply auto[1]
  apply (auto intro!: post_ret)
  done

lemma legacyMode_commission:
  assumes g: "fst (getCustomFieldKeys en w) = Inr (Some fm)" and c: "commissionWritten d fm k"
  shows "postFrom w (legacyMode en d)
           (\<lambda>r cs. list_all (\<lambda>x. carriesField k (sentValue True d fm k) (fst x)) cs)"
  unfolding legacyMode_def Let_def
  apply (rule postFrom_bnd_liftE)
   apply simp
  apply (rule postFrom_if)
   apply (simp add: postFrom_ret)
  apply (rule postFrom_if)
   apply (simp add: postFrom_ret)
  apply (rule postFrom_bnd_sum[OF creationPayload_from[OF g c]])
   apply auto[1]
  apply (rule post_bnd_fetch)
   apply auto[1]
  apply (rule post_if)
   apply (auto intro!: post_ret)[1]
  apply (rule post_bnd_liftE)
   apply auto[1]
  apply (rule post_if)
   apply (auto intro!: post_ret)[1]
  apply (rule post_bnd_sum[OF setWebsite_post])
   apply auto[1]
  apply (rule post_bnd_liftE)
   apply auto[1]
  apply (rule post_bnd_fetch)
   apply auto[1]
  apply (rule post_if)
   apply (auto intro!: post_ret)[1]
  apply (rule post_bnd_liftE)
   apply auto[1]
  apply (rule post_bnd_sum[OF setParent_post])
   apply auto[1]
  apply (auto intro!: post_ret)
  done

lemma finalizeAffiliate_commission:
  assumes g: "fst (getCustomFieldKeys en w) = Inr (Some fm)" and c: "commissionWritten d fm k"
  shows "postFrom w (finalizeAffiliate en d)
           (\<lambda>r cs. list_all (\<lambda>x. carriesField k (sentValue True d fm k) (fst x)) cs)"
  unfolding finalizeAffiliate_def Let_def
  apply (rule postFrom_if)
   apply (simp add: postFrom_ret)
  apply (rule postFrom_bnd_liftE)
   apply simp
  apply (rule postFrom_if)
   apply (simp add: postFrom_ret)
  apply (rule postFrom_bnd_sum[OF getCustomFieldKeys_from])
   apply auto[1]
  apply (simp add: g)
  apply (rule post_bnd_liftE)
   apply auto[1]
  apply (frule finalizeFields_field[OF c])
  apply (frule field_nonempty)
  apply (rule post_bnd_sum[OF updateAffiliate_post])
   apply auto[1]
  apply (rule post_bnd_sum[OF setWebsite_post])
   apply auto[1]
  apply (rule post_bnd_liftE)
   apply (auto simp: customField_finalize stringifyFields_field)[1]
  apply (rule post_bnd_fetch)
   apply (auto simp: customField_finalize stringifyFields_field)[1]
  apply (rule post_if)
   apply (auto simp: customField_finalize stringifyFields_field intro!: post_ret)[1]
  apply (rule post_bnd_liftE)
   apply (auto simp: customField_finalize stringifyFields_field)[1]
  apply (rule post_bnd_sum[OF setParent_post])
   apply (auto simp: customField_finalize stringifyFields_field)[1]
  apply (auto simp: customField_finalize stringifyFields_field intro!: post_ret)
  done

lemma updateCustomFields_sent:
  assumes g: "fst (getCustomFieldKeys en w) = Inr (Some fm)" and c: "commissionWritten d fm k"
  shows "postFrom w (updateCustomFields en d)
           (\<lambda>r cs. list_all (\<lambda>x. carriesField k (sentValue False d fm k) (fst x)) cs)"
  unfolding updateCustomFields_def Let_def
  apply (rule postFrom_if)
   apply (simp add: postFrom_ret)
  apply (rule postFrom_bnd_sum[OF getCustomFieldKeys_from])
   apply auto[1]
  apply (simp add: g)
  apply (rule post_bnd_liftE)
   apply auto[1]
  apply (frule updateFields_field[OF c])
  apply (rule post_if)
   apply (rule post_bnd_liftE)
    apply auto[1]
   apply (rule post_tryCatch)
   apply (rule post_bnd_fetch)
    apply (auto simp: customField_update stringifyFields_field intro!: post_ret)[1]
   apply (auto simp: customField_update stringifyFields_field intro!: post_ret post_if)[1]
  apply (auto intro!: post_ret)
  done

text \<open>
  What every creation and every PATCH of a run carries under the commission key: the
  commission value, or the value the demo-call block has written over it.
\<close>

lemma handler_commission:
  assumes p: "httpMethod ev = ''POST''" and a: "keySet (apiKey en)" and b: "requestBody ev = Inr d"
    and g: "fst (getCustomFieldKeys en w) = Inr (Some fm)" and c: "commissionWritten d fm k"
    and h: "handler en ev w = (resp, w')"
  shows "\<exists>cs. trace w' = trace w @ cs \<and>
              list_all (\<lambda>x. carriesField k (sentValue (runsDemoBlock d) d fm k) (fst x)) cs"
proof -
  from c have n: "d \<noteq> JNull" by (cases d) (auto simp: commissionWritten_def)
  let ?Q = "\<lambda>demo (r :: exn + response) cs.
              list_all (\<lambda>x. carriesField k (sentValue demo d fm k) (fst x)) cs"
  have "postFrom w (handlerBody en ev) (?Q (runsDemoBlock d))"
    unfolding handler_post_body[OF p a b n]
    using createAffiliateOnly_commission[OF g c] finalizeAffiliate_commission[OF g c]
      updateCustomFields_sent[OF g c] legacyMode_commission[OF g c]
    by (simp add: runsDemoBlock_def)
  then obtain cs where cs: "trace (snd (handlerBody en ev w)) = trace w @ cs"
    and q: "?Q (runsDemoBlock d) (fst (handlerBody en ev w)) cs"
    unfolding postFrom_def by blast
  from h have "w' = snd (handlerBody en ev w)"
    unfolding handler_post[OF p] by (auto split: prod.splits sum.splits)
  with cs q show ?thesis by blast
qed

lemma handler_update_commission:
  assumes p: "httpMethod ev = ''POST''" and k: "keySet (apiKey en)" and b: "requestBody ev = Inr d"
    and m: "modeOf d = Some (JStr ''update_custom_fields'')" and h: "handler en ev w = (resp, w')"
  shows "\<exists>cs. trace w' = trace w @ cs \<and> list_all (\<lambda>x. commissionOnly (fst x)) cs"
proof -
  from m have n: "d \<noteq> JNull" by (auto simp: modeOf_def orElse_def)
  from postD[OF updateCustomFields_commission, of en d w] obtain cs where
    cs: "trace (snd (updateCustomFields en d w)) = trace w @ cs"
    and q: "list_all (\<lambda>x. commissionOnly (fst x)) cs" by blast
  from h have "w' = snd (updateCustomFields en d w)"
    unfolding handler_post[OF p] handler_post_body[OF p k b n]
    by (auto simp: m split: prod.splits sum.splits)
  with cs q show ?thesis by auto
qed

text \<open>
  C6, as the code has it. The commission value is always one of the three literals, and a
  value outside them (\<^verbatim>\<open>bogus\<close>) becomes \<^verbatim>\<open>I want 10% commission\<close>.
  In every mode, for a request with a truthy \<^verbatim>\<open>commission_type\<close> and a catalog
  (the one the run obtains from \<^verbatim>\<open>getCustomFieldKeys\<close>) that resolves the
  commission label to a key \<open>k\<close>, every creation and every PATCH the run sends
  carries that value in the custom field \<open>k\<close>, provided the demo-call block does
  not write the same key: the mode is the update mode, or \<^verbatim>\<open>wantsDemoCall\<close> is
  not supplied, or the catalog gives the demo-call field another key. In the update mode
  every PATCH carries exactly one custom field, whose value is one of the three, whatever
  the catalog.
\<close>

theorem commission_type_is_normalized:
  "commissionTypeValue v \<in> set (map JStr validCommissionTypes)
   \<and> (v \<notin> set (map (\<lambda>s. Some (JStr s)) validCommissionTypes) \<longrightarrow>
        commissionTypeValue v = JStr ''I want 10% commission'')
   \<and> (httpMethod ev = ''POST'' \<and> keySet (apiKey en) \<and> requestBody ev = Inr d \<and>
        fst (getCustomFieldKeys en w) = Inr (Some fm) \<and> commissionWritten d fm k \<and>
        \<not> (runsDemoBlock d \<and> demoCallWrites d fm k) \<and> handler en ev w = (resp, w') \<longrightarrow>
        (\<exists>cs. trace w' = trace w @ cs \<and>
              list_all (\<lambda>x. carriesField k (commissionTypeValue (propOf d ''commission_type'')) (fst x))
                       cs))
   \<and> (httpMethod ev = ''POST'' \<and> keySet (apiKey en) \<and> requestBody ev = Inr d \<and>
        modeOf d = Some (JStr ''update_custom_fields'') \<and> handler en ev w = (resp, w') \<longrightarrow>
        (\<exists>cs. trace w' = trace w @ cs \<and> list_all (\<lambda>x. commissionOnly (fst x)) cs))"
proof -
  have "\<exists>cs. trace w' = trace w @ cs \<and>
             list_all (\<lambda>x. carriesField k (commissionTypeValue (propOf d ''commission_type'')) (fst x)) cs"
    if "httpMethod ev = ''POST''" "keySet (apiKey en)" "requestBody ev = Inr d"
      "fst (getCustomFieldKeys en w) = Inr (Some fm)" "commissionWritten d fm k"
      "handler en ev w = (resp, w')" and n: "\<not> (runsDemoBlock d \<and> demoCallWrites d fm k)"
  proof -
    from n have "sentValue (runsDemoBlock d) d fm k = commissionTypeValue (propOf d ''commission_type'')"
      by (auto simp: sentValue_def)
    with handler_commission[OF that(1-6)] show ?thesis by simp
  qed
  with commissionTypeValue_valid[of v] commissionTypeValue_default[of v]
    handler_update_commission[of ev en d w resp w']
  show ?thesis by blast
qed

text \<open>
  A run of the create-only mode with \<^verbatim>\<open>commission_type: "bogus"\<close> against the
  sample catalog: the creation carries \<^verbatim>\<open>I want 10% commission\<close> under the key
  \<^verbatim>\<open>commission-type\<close>; and so does the PATCH of the update mode.
\<close>

theorem commission_type_is_normalized_witness:
  "Some (JStr ''bogus'') \<notin> set (map (\<lambda>s. Some (JStr s)) validCommissionTypes)
   \<and> commissionTypeValue (Some (JStr ''bogus'')) = JStr ''I want 10% commission''
   \<and> fst (getCustomFieldKeys (sampleEnv sampleVendor) coldWorld) =
       Inr (Some \<lparr>ownKeys = [(''company type'', JStr ''company-type''),
                             (''commission type'', JStr ''commission-type'')],
                  protoObj = None\<rparr>)
   \<and> commissionWritten (createRequest (JStr ''42''))
        \<lparr>ownKeys = [(''company type'', JStr ''company-type''),
                     (''commission type'', JStr ''commission-type'')],
          protoObj = None\<rparr> ''commission-type''
   \<and> \<not> demoCallWrites (createRequest (JStr ''42''))
        \<lparr>ownKeys = [(''company type'', JStr ''company-type''),
                     (''commission type'', JStr ''commission-type'')],
          protoObj = None\<rparr> ''commission-type''
   \<and> list_ex (\<lambda>x. \<exists>b. fst x = PostAffiliate b)
        (trace (snd (handler (sampleEnv sampleVendor) (postEvent (createRequest (JStr ''42''))) coldWorld)))
   \<and> list_all (\<lambda>x. carriesField ''commission-type'' (JStr ''I want 10% commission'') (fst x))
        (trace (snd (handler (sampleEnv sampleVendor) (postEvent (createRequest (JStr ''42''))) coldWorld)))
   \<and> PatchAffiliate ''alice-smith''
        (JObj [(''custom_fields'', JObj [(''commission-type'', JStr ''I want 10% commission'')])])
      \<in> fst ` set (trace (snd (handler (sampleEnv sampleVendor)
                                 (postEvent (updateRequest [(''commission_type'', JStr ''bogus'')]))
                                 coldWorld)))"
proof -
  let ?en = "sampleEnv sampleVendor"
  let ?d = "createRequest (JStr ''42'')"
  let ?fm = "\<lparr>ownKeys = [(''company type'', JStr ''company-type''),
                         (''commission type'', JStr ''commission-type'')],
              protoObj = None\<rparr>"
  let ?run = "handler ?en (postEvent ?d) coldWorld"
  have n: "Some (JStr ''bogus'') \<notin> set (map (\<lambda>s. Some (JStr s)) validCommissionTypes)"
    by (simp add: validCommissionTypes_def)
  have t: "PatchAffiliate ''alice-smith''
        (JObj [(''custom_fields'', JObj [(''commission-type'', JStr ''I want 10% commission'')])])
      \<in> fst ` set (trace (snd (handler (sampleEnv sampleVendor)
                                 (postEvent (updateRequest [(''commission_type'', JStr ''bogus'')]))
                                 coldWorld)))"
    by code_simp
  have p: "httpMethod (postEvent ?d) = ''POST''" by (simp add: postEvent_def)
  have a: "keySet (apiKey ?en)" by (simp add: sampleEnv_def keySet_def)
  have b: "requestBody (postEvent ?d) = Inr ?d" by (simp add: postEvent_def)
  have g: "fst (getCustomFieldKeys ?en coldWorld) = Inr (Some ?fm)" by code_simp
  have c: "commissionWritten ?d ?fm ''commission-type''" by code_simp
  have o: "\<not> demoCallWrites ?d ?fm ''commission-type''" by code_simp
  have v: "propOf ?d ''commission_type'' = Some (JStr ''bogus'')" by code_simp
  have "map fst (trace (snd ?run)) =
          [GetCustomFields,
           PostAffiliate (JObj
             [(''firstname'', JStr ''Alice''), (''lastname'', JStr ''Smith''),
              (''email'', JStr ''alice@example.com''), (''password'', JStr ''s3cret''),
              (''address'', JObj [(''address'', JStr ''n/a''), (''postal_code'', JStr ''n/a''),
                                  (''city'', JStr ''n/a''),
                                  (''country'', JObj [(''code'', JStr ''GB'')])]),
              (''company'', JObj [(''name'', JStr ''n/a'')]),
              (''custom_fields'', JObj [(''commission-type'', JStr ''I want 10% commission'')])]),
           PostParent ''alice-smith'' (JObj [(''via'', JStr ''42'')])]"
    by code_simp
  then have e: "list_ex (\<lambda>x. \<exists>b. fst x = PostAffiliate b) (trace (snd ?run))"
    by (auto simp: list_ex_iff map_eq_Cons_conv)
  have cold: "trace coldWorld = []" by (simp add: coldWorld_def)
  from commission_type_is_normalized[of "Some (JStr ''bogus'')" "postEvent ?d" ?en ?d coldWorld ?fm
      "''commission-type''" "fst ?run" "snd ?run"] p a b g c o
  obtain cs where "trace (snd ?run) = trace coldWorld @ cs"
    and "list_all (\<lambda>x. carriesField ''commission-type''
                          (commissionTypeValue (propOf ?d ''commission_type'')) (fst x)) cs"
    and d: "commissionTypeValue (Some (JStr ''bogus'')) = JStr ''I want 10% commission''"
    using n by auto
  with v cold have "list_all (\<lambda>x. carriesField ''commission-type'' (JStr ''I want 10% commission'') (fst x))
                      (trace (snd ?run))" by simp
  with n d g c o e t show ?thesis by blast
qed

text \<open>
  The claim as stated fails when the catalog of the vendor gives the commission field and
  the demo-call field one key \<^verbatim>\<open>x\<close>: the demo-call block runs after the commission
  block and overwrites the property, so with \<^verbatim>\<open>commission_type: "bogus"\<close> the
  PATCH of the finalize mode carries \<^verbatim>\<open>No\<close> and the creation of the create-only
  mode carries \<^verbatim>\<open>Yes\<close> under the commission key, neither of them one of the
  three literals.
\<close>

theorem shared_key_counterexample:
  "(case fst (getCustomFieldKeys (sampleEnv sharedKeyVendor) coldWorld) of
      Inr (Some fm) \<Rightarrow> commissionFieldKey fm = Some (JStr ''x'')
    | _ \<Rightarrow> False)
   \<and> propOf (demoRequest ''finalize_affiliate'' False) ''commission_type'' = Some (JStr ''bogus'')
   \<and> PatchAffiliate ''alice-smith'' (JObj [(''custom_fields'', JObj [(''x'', JStr ''No'')])])
       \<in> fst ` set (trace (snd (handler (sampleEnv sharedKeyVendor)
                                  (postEvent (demoRequest ''finalize_affiliate'' False)) coldWorld)))
   \<and> list_ex (\<lambda>x. case fst x of PostAffiliate b \<Rightarrow> customField b ''x'' = Some (JStr ''Yes'') | _ \<Rightarrow> False)
       (trace (snd (handler (sampleEnv sharedKeyVendor)
                      (postEvent (demoRequest ''create_affiliate_only'' True)) coldWorld)))
   \<and> JStr ''No'' \<notin> set (map JStr validCommissionTypes)
   \<and> JStr ''Yes'' \<notin> set (map JStr validCommissionTypes)"
  by code_simp

section \<open>Enrollment in the finalize mode\<close>







section \<open>The update mode without a commission field\<close>

lemma logEntries_iff: "logEntries vs = Inr () \<longleftrightarrow> (\<forall>v\<in>set vs. \<exists>t. toString v = Inr t)"
  by (induction vs) (auto split: sum.splits)

lemma assign_values: "snd ` set (assign k v xs) \<subseteq> insert v (snd ` set xs)"
  by (induction xs) auto

lemma assignField_values:
  "snd ` set (ownKeys (assignField k v fm)) \<subseteq> insert v (snd ` set (ownKeys fm))"
  using assign_values[of k v "ownKeys fm"] by (auto simp: assignField_def)

lemma addField_loggable:
  assumes "addField fm f = Inr fm'" "\<forall>v\<in>snd ` set (ownKeys fm). \<exists>t. toString v = Inr t"
  shows "\<forall>v\<in>snd ` set (ownKeys fm'). \<exists>t. toString v = Inr t"
proof -
  from assms(1) have "fm' = fm \<or> (\<exists>k v t. fm' = assignField k v fm \<and> toString v = Inr t)"
    by (auto simp: addField_def split: sum.splits option.splits if_splits)
  then show ?thesis
  proof
    assume "fm' = fm" with assms(2) show ?thesis by simp
  next
    assume "\<exists>k v t. fm' = assignField k v fm \<and> toString v = Inr t"
    then obtain k v t where fm': "fm' = assignField k v fm" and t: "toString v = Inr t" by blast
    show ?thesis
    proof
      fix x assume "x \<in> snd ` set (ownKeys fm')"
      with assignField_values[of k v fm] fm' have "x = v \<or> x \<in> snd ` set (ownKeys fm)" by auto
      with t assms(2) show "\<exists>t. toString x = Inr t" by auto
    qed
  qed
qed

lemma addFields_loggable:
  "addFields fm fs = Inr fm' \<Longrightarrow> \<forall>v\<in>snd ` set (ownKeys fm). \<exists>t. toString v = Inr t \<Longrightarrow>
   \<forall>v\<in>snd ` set (ownKeys fm'). \<exists>t. toString v = Inr t"
proof (induction fs arbitrary: fm)
  case Nil
  then show ?case by simp
next
  case (Cons f fs)
  from Cons.prems(1) obtain fm1 where a: "addField fm f = Inr fm1" and b: "addFields fm1 fs = Inr fm'"
    by (auto split: sum.splits)
  from addField_loggable[OF a Cons.prems(2)] Cons.IH[OF b] show ?case by blast
qed

lemma buildFieldMap_loggable:
  assumes "buildFieldMap j = Inr fm"
  shows "logEntries (map snd (ownKeys fm)) = Inr ()"
proof -
  have e: "\<forall>v\<in>snd ` set (ownKeys emptyFieldMap). \<exists>t. toString v = Inr t"
    by (simp add: emptyFieldMap_def)
  have "\<forall>v\<in>snd ` set (ownKeys fm). \<exists>t. toString v = Inr t"
  proof (cases j)
    case (JArr xs)
    with assms have "addFields emptyFieldMap xs = Inr fm" by (simp add: buildFieldMap_def)
    from addFields_loggable[OF this e] show ?thesis .
  qed (use assms e in \<open>auto simp: buildFieldMap_def\<close>)
  then show ?thesis by (simp add: logEntries_iff)
qed

lemma clock_not_valid: "clockNotBehind en w \<Longrightarrow> \<not> cacheValid en w"
  by (auto simp: clockNotBehind_def cacheValid_def CACHE_DURATION_def split: option.splits)

lemma getCustomFieldKeys_fresh:
  assumes "\<not> cacheValid en w"
  shows "\<exists>fmo w1. getCustomFieldKeys en w = (Inr fmo, w1)
           \<and> trace w1 = trace w @ [(GetCustomFields, vendor en (trace w) GetCustomFields)]
           \<and> (case fmo of None \<Rightarrow> True | Some fm \<Rightarrow> logEntries (map snd (ownKeys fm)) = Inr ())"
  using assms
  by (auto simp: getCustomFieldKeys_def tryCatch_def bnd_def fetch_def Let_def ret_def liftE_def
                 storeCache_def responseJson_def buildFieldMap_loggable
           split: fetch_result.splits sum.splits)

lemma addCommissionType_unresolved:
  "\<not> truthy (propOf d ''commission_type'') \<or>
   \<not> truthy (lookupField fm (normalizeLabel ''Commission type'')) \<Longrightarrow>
   addCommissionType d fm [] = Inr []"
  by (auto simp: addCommissionType_def Let_def)

text \<open>
  C8, as the code has it. In the update mode with an \<^verbatim>\<open>affiliate_id\<close>, when no
  \<^verbatim>\<open>commission_type\<close> was supplied or the catalog does not resolve the label, the
  handler returns 200 with \<^verbatim>\<open>No custom fields to update\<close> and issues no PATCH: its
  one vendor call is the GET that reads the field catalog (the cache lasts 0 ms, so the
  catalog is read on every request whose clock is not behind the cache's timestamp).
\<close>

theorem update_without_commission_field:
  assumes p: "httpMethod ev = ''POST''" and k: "keySet (apiKey en)" and b: "requestBody ev = Inr d"
    and m: "modeOf d = Some (JStr ''update_custom_fields'')"
    and a: "truthy (propOf d ''affiliate_id'')"
    and c: "clockNotBehind en w"
    and u: "\<not> truthy (propOf d ''commission_type'') \<or>
            (\<forall>fm. fst (getCustomFieldKeys en w) = Inr (Some fm) \<longrightarrow>
                  \<not> truthy (lookupField fm (normalizeLabel ''Commission type'')))"
  shows "fst (handler en ev w) =
           respond 200 [(''success'', JBool True), (''mode'', JStr ''update_custom_fields''),
                        (''affiliate_id'', orDefault (propOf d ''affiliate_id'') JNull),
                        (''message'', JStr ''No custom fields to update'')]
       \<and> trace (snd (handler en ev w)) =
           trace w @ [(GetCustomFields, vendor en (trace w) GetCustomFields)]"
proof -
  from m have n: "d \<noteq> JNull" by (auto simp: modeOf_def orElse_def)
  from getCustomFieldKeys_fresh[OF clock_not_valid[OF c]] obtain fmo w1 where
    g: "getCustomFieldKeys en w = (Inr fmo, w1)"
    and t: "trace w1 = trace w @ [(GetCustomFields, vendor en (trace w) GetCustomFields)]"
    and l: "case fmo of None \<Rightarrow> True | Some fm \<Rightarrow> logEntries (map snd (ownKeys fm)) = Inr ()"
    by blast
  have f: "(case fmo of None \<Rightarrow> Inr [] | Some fm \<Rightarrow> updateFields d fm) = Inr []"
  proof (cases fmo)
    case None
    then show ?thesis by simp
  next
    case (Some fm)
    with u g have "\<not> truthy (propOf d ''commission_type'') \<or>
        \<not> truthy (lookupField fm (normalizeLabel ''Commission type''))" by auto
    from addCommissionType_unresolved[OF this] l Some show ?thesis
      by (simp add: updateFields_def)
  qed
  have "updateCustomFields en d w =
      (Inr (respond 200 [(''success'', JBool True), (''mode'', JStr ''update_custom_fields''),
                        (''affiliate_id'', orDefault (propOf d ''affiliate_id'') JNull),
                        (''message'', JStr ''No custom fields to update'')]), w1)"
    using a g f by (simp add: updateCustomFields_def Let_def bnd_def liftE_def ret_def)
  then show ?thesis
    unfolding handler_post[OF p] handler_post_body[OF p k b n]
    by (simp add: m t)
qed

theorem update_without_commission_field_witness:
  "fst (handler (sampleEnv sampleVendor) (postEvent (updateRequest [])) coldWorld) =
     respond 200 [(''success'', JBool True), (''mode'', JStr ''update_custom_fields''),
                  (''affiliate_id'', JStr ''alice-smith''),
                  (''message'', JStr ''No custom fields to update'')]
   \<and> list_all (\<lambda>x. \<not> isPatch (fst x))
        (trace (snd (handler (sampleEnv sampleVendor) (postEvent (updateRequest [])) coldWorld)))"
proof -
  let ?d = "updateRequest []"
  have p: "httpMethod (postEvent ?d) = ''POST''" by (simp add: postEvent_def)
  have k: "keySet (apiKey (sampleEnv sampleVendor))" by (simp add: sampleEnv_def keySet_def)
  have b: "requestBody (postEvent ?d) = Inr ?d" by (simp add: postEvent_def)
  have m: "modeOf ?d = Some (JStr ''update_custom_fields'')" by code_simp
  have a: "truthy (propOf ?d ''affiliate_id'')" by code_simp
  have c: "clockNotBehind (sampleEnv sampleVendor) coldWorld"
    by (simp add: clockNotBehind_def coldWorld_def)
  have u: "\<not> truthy (propOf ?d ''commission_type'') \<or>
            (\<forall>fm. fst (getCustomFieldKeys (sampleEnv sampleVendor) coldWorld) = Inr (Some fm) \<longrightarrow>
                  \<not> truthy (lookupField fm (normalizeLabel ''Commission type'')))"
    by (simp add: updateRequest_def)
  have o: "orDefault (propOf ?d ''affiliate_id'') JNull = JStr ''alice-smith''" by code_simp
  from update_without_commission_field[OF p k b m a c u] o show ?thesis
    by (simp add: coldWorld_def)
qed

text \<open>
  The claim as stated fails: with no \<^verbatim>\<open>commission_type\<close> supplied the handler still
  performs a vendor call, the GET of the field catalog.
\<close>

theorem catalog_is_fetched_counterexample:
  "\<not> truthy (propOf (updateRequest []) ''commission_type'')
   \<and> trace (snd (handler (sampleEnv sampleVendor) (postEvent (updateRequest [])) coldWorld)) =
       [(GetCustomFields, reply 200 sampleCatalog)]"
  by code_simp

section \<open>Which parent ids trigger the parent link\<close>





















text \<open>
  A parent id whose conversion to a string throws is not skipped: in the create-only mode
  the affiliate is created and the request then ends in the 500 response.
\<close>

lemma unconvertible_parent_id_fails:
  "statusCode (fst (handler (sampleEnv sampleVendor)
                      (postEvent (createRequest (JObj [(''toString'', JNum 1)]))) coldWorld)) = 500
   \<and> length (trace (snd (handler (sampleEnv sampleVendor)
                      (postEvent (createRequest (JObj [(''toString'', JNum 1)]))) coldWorld))) = 2"
  by code_simp

end
